theory Spec2Isabelle
  imports Complex_Main "HOL-Library.AList"
begin

section \<open>Values shared by the Python modules\<close>

text \<open>
  Exceptions of the Python runtime and of numpy that the modelled functions can raise.
  \<open>GenerationError\<close> is the error kind named by the specification; \<open>LibraryError\<close>
  stands for a failure inside an external collaborator (scipy's integrator, the encoder,
  the scaler or the classifier).
\<close>

datatype error =
  ValueError | IndexError | KeyError | AttributeError | ZeroDivisionError | GenerationError
  | LibraryError

text \<open>
  A numpy \<open>float64\<close>: a finite value, one of the two infinities, or not-a-number.
  Finite values are modelled as exact reals (rounding and signed zeros are not modelled).
\<close>

datatype npfloat = Fin real | PosInf | NegInf | NaN

section \<open>Rate adjustment: \<open>api/ml_server.py\<close>, \<open>calculate_circadian_rate\<close>\<close>

text \<open>
  The dictionary returned by \<open>MLPredictor.predict_chronotype\<close>; absent keys are \<open>None\<close>.
  The \<open>error\<close> entry is a fixed message or the text \<open>str(e)\<close> of a caught exception.
\<close>

datatype error_text = Message string | Str error

record chronotype_result =
  cr_error :: "error_text option"
  cr_chronotype :: int
  cr_chronotype_name :: "string option"
  cr_confidence :: "npfloat option"
  cr_success :: "bool option"

text \<open>The JSON body of the answer of \<open>/calculate_circadian_rate\<close>.\<close>

record rate_response =
  adjusted_rate :: int
  base_rate :: int
  chronotype :: int
  chronotype_name :: string
  confidence :: npfloat
  hourly_multiplier :: int
  behavior_multiplier :: int
  current_hour :: int

text \<open>Python's \<open>d.get(k, default)\<close>.\<close>

definition dict_get :: "('k \<rightharpoonup> 'v) \<Rightarrow> 'k \<Rightarrow> 'v \<Rightarrow> 'v" where
  "dict_get d k dflt = (case d k of None \<Rightarrow> dflt | Some v \<Rightarrow> v)"

definition hourly_multipliers :: "int \<rightharpoonup> int" where
  "hourly_multipliers = map_of
     [(2, 8500), (3, 8500), (4, 8500), (5, 8500), (6, 8500),
      (9, 11000), (10, 11000), (11, 11000), (12, 11000), (13, 11000),
      (14, 11000), (15, 11000), (16, 11000), (17, 11000),
      (22, 9000), (23, 9000), (0, 9000), (1, 9000)]"

definition chronotype_adjustments :: "int \<rightharpoonup> int" where
  "chronotype_adjustments = map_of [(0, 9500), (1, 10000), (2, 10500)]"

text \<open>
  The body of \<open>calculate_circadian_rate\<close> from the point where the prediction is known
  (lines 206 to 244): the default label and confidence for a failed prediction, the two
  table look-ups and the integer floor division. \<open>Inl e\<close> is an exception \<open>e\<close> reaching the
  \<open>except\<close> clause of the endpoint (a successful prediction without a confidence entry),
  which answers with an error body instead of a rate.
\<close>

definition circadian_rate :: "int \<Rightarrow> int \<Rightarrow> chronotype_result \<Rightarrow> error + rate_response" where
  "circadian_rate base_rate' current_hour' chronotype_result' =
     (case (if \<not> (case cr_success chronotype_result' of None \<Rightarrow> False | Some b \<Rightarrow> b)
            then Inr (1, Fin 0.5)
            else (case cr_confidence chronotype_result' of
                    None \<Rightarrow> Inl KeyError
                  | Some c \<Rightarrow> Inr (cr_chronotype chronotype_result', c))) of
        Inl e \<Rightarrow> Inl e
      | Inr (chronotype', confidence') \<Rightarrow>
          (let hourly_multiplier' = dict_get hourly_multipliers current_hour' 10000;
               behavior_multiplier' = dict_get chronotype_adjustments chronotype' 10000;
               adjusted_rate' =
                 (base_rate' * hourly_multiplier' * behavior_multiplier') div (10000 * 10000)
           in Inr \<lparr> adjusted_rate = adjusted_rate',
                     base_rate = base_rate',
                     chronotype = chronotype',
                     chronotype_name =
                       (case cr_chronotype_name chronotype_result' of
                          None \<Rightarrow> ''Intermediate'' | Some n \<Rightarrow> n),
                     confidence = confidence',
                     hourly_multiplier = hourly_multiplier',
                     behavior_multiplier = behavior_multiplier',
                     current_hour = current_hour' \<rparr>))"

definition chronotype_names :: "string list" where
  "chronotype_names = [''Early'', ''Intermediate'', ''Late'']"

text \<open>
  A successful prediction with the given label and confidence, as built at the end of
  \<open>predict_chronotype\<close> (lines 114 to 119).
\<close>

definition prediction_result :: "int \<Rightarrow> npfloat \<Rightarrow> chronotype_result" where
  "prediction_result label c =
     \<lparr> cr_error = None,
       cr_chronotype = label,
       cr_chronotype_name =
         (if 0 \<le> label \<and> label < 3 then Some (chronotype_names ! nat label) else None),
       cr_confidence = Some c,
       cr_success = Some True \<rparr>"

text \<open>
  The specification's \<open>adjustRate(baseRate, hour, label, confidence)\<close>: the adjusted rate
  that the endpoint reports for a prediction with that label and confidence.
\<close>

definition adjustRate :: "int \<Rightarrow> int \<Rightarrow> int \<Rightarrow> npfloat \<Rightarrow> error + int" where
  "adjustRate baseRate hour label c =
     map_sum id adjusted_rate (circadian_rate baseRate hour (prediction_result label c))"

text \<open>The two multiplier tables in the words of the specification (section 4.7).\<close>

definition spec_hourly_multiplier :: "int \<Rightarrow> int" where
  "spec_hourly_multiplier hour =
     (if hour \<in> {2..6} then 8500
      else if hour \<in> {9..13} \<union> {14..17} then 11000
      else if hour \<in> {22, 23, 0, 1} then 9000
      else 10000)"

definition spec_chronotype_multiplier :: "int \<Rightarrow> int" where
  "spec_chronotype_multiplier label =
     (if label = 0 then 9500 else if label = 1 then 10000 else 10500)"

section \<open>numpy arithmetic on \<open>float64\<close>\<close>

text \<open>
  IEEE arithmetic on the four kinds of value: an operation with a NaN operand is NaN,
  \<open>inf - inf\<close>, \<open>0 * inf\<close>, \<open>0 / 0\<close> and \<open>inf / inf\<close> are NaN, and a non-zero finite
  value divided by zero is an infinity (numpy warns and does not raise).
\<close>

definition np_inf :: "bool \<Rightarrow> npfloat" where
  "np_inf positive = (if positive then PosInf else NegInf)"

fun np_neg :: "npfloat \<Rightarrow> npfloat" where
  "np_neg (Fin a) = Fin (- a)"
| "np_neg PosInf = NegInf"
| "np_neg NegInf = PosInf"
| "np_neg NaN = NaN"

fun np_add :: "npfloat \<Rightarrow> npfloat \<Rightarrow> npfloat" where
  "np_add (Fin a) (Fin b) = Fin (a + b)"
| "np_add NaN _ = NaN"
| "np_add _ NaN = NaN"
| "np_add PosInf NegInf = NaN"
| "np_add NegInf PosInf = NaN"
| "np_add PosInf _ = PosInf"
| "np_add _ PosInf = PosInf"
| "np_add NegInf _ = NegInf"
| "np_add _ NegInf = NegInf"

definition np_sub :: "npfloat \<Rightarrow> npfloat \<Rightarrow> npfloat" where
  "np_sub a b = np_add a (np_neg b)"

fun np_mul :: "npfloat \<Rightarrow> npfloat \<Rightarrow> npfloat" where
  "np_mul (Fin a) (Fin b) = Fin (a * b)"
| "np_mul NaN _ = NaN"
| "np_mul _ NaN = NaN"
| "np_mul (Fin a) PosInf = (if a = 0 then NaN else np_inf (0 < a))"
| "np_mul (Fin a) NegInf = (if a = 0 then NaN else np_inf (a < 0))"
| "np_mul PosInf (Fin b) = (if b = 0 then NaN else np_inf (0 < b))"
| "np_mul NegInf (Fin b) = (if b = 0 then NaN else np_inf (b < 0))"
| "np_mul PosInf PosInf = PosInf"
| "np_mul PosInf NegInf = NegInf"
| "np_mul NegInf PosInf = NegInf"
| "np_mul NegInf NegInf = PosInf"

fun np_div :: "npfloat \<Rightarrow> npfloat \<Rightarrow> npfloat" where
  "np_div (Fin a) (Fin b) =
     (if b \<noteq> 0 then Fin (a / b) else if a = 0 then NaN else np_inf (0 < a))"
| "np_div NaN _ = NaN"
| "np_div _ NaN = NaN"
| "np_div (Fin a) PosInf = Fin 0"
| "np_div (Fin a) NegInf = Fin 0"
| "np_div PosInf (Fin b) = np_inf (0 \<le> b)"
| "np_div NegInf (Fin b) = np_inf (b < 0)"
| "np_div PosInf PosInf = NaN"
| "np_div PosInf NegInf = NaN"
| "np_div NegInf PosInf = NaN"
| "np_div NegInf NegInf = NaN"

fun np_sqrt :: "npfloat \<Rightarrow> npfloat" where
  "np_sqrt (Fin a) = (if a < 0 then NaN else Fin (sqrt a))"
| "np_sqrt PosInf = PosInf"
| "np_sqrt NegInf = NaN"
| "np_sqrt NaN = NaN"

text \<open>The comparison \<open>a < b\<close>: false as soon as one side is NaN.\<close>

fun np_less :: "npfloat \<Rightarrow> npfloat \<Rightarrow> bool" where
  "np_less (Fin a) (Fin b) = (a < b)"
| "np_less NaN _ = False"
| "np_less _ NaN = False"
| "np_less PosInf _ = False"
| "np_less _ PosInf = True"
| "np_less _ NegInf = False"
| "np_less NegInf _ = True"

definition np_sum :: "npfloat list \<Rightarrow> npfloat" where
  "np_sum xs = foldl np_add (Fin 0) xs"

text \<open>\<open>np.mean\<close>: the sum divided by the count; the mean of an empty array is \<open>0 / 0\<close>, NaN.\<close>

definition np_mean :: "npfloat list \<Rightarrow> npfloat" where
  "np_mean xs = np_div (np_sum xs) (Fin (real (length xs)))"

text \<open>\<open>np.std\<close>: the population standard deviation.\<close>

definition np_std :: "npfloat list \<Rightarrow> npfloat" where
  "np_std xs =
     (let arrmean = np_mean xs;
          x = map (\<lambda>v. np_sub v arrmean) xs
      in np_sqrt (np_mean (map (\<lambda>d. np_mul d d) x)))"

text \<open>
  \<open>np.argmax\<close> and \<open>np.argmin\<close>: the first index of the extreme value, a NaN counting as
  extreme; both raise \<open>ValueError\<close> on an empty array.
\<close>

fun argmax_from :: "nat \<Rightarrow> npfloat \<Rightarrow> nat \<Rightarrow> npfloat list \<Rightarrow> nat" where
  "argmax_from best_i best_v i [] = best_i"
| "argmax_from best_i best_v i (x # xs) =
     (if best_v \<noteq> NaN \<and> (x = NaN \<or> np_less best_v x)
      then argmax_from i x (Suc i) xs
      else argmax_from best_i best_v (Suc i) xs)"

fun argmin_from :: "nat \<Rightarrow> npfloat \<Rightarrow> nat \<Rightarrow> npfloat list \<Rightarrow> nat" where
  "argmin_from best_i best_v i [] = best_i"
| "argmin_from best_i best_v i (x # xs) =
     (if best_v \<noteq> NaN \<and> (x = NaN \<or> np_less x best_v)
      then argmin_from i x (Suc i) xs
      else argmin_from best_i best_v (Suc i) xs)"

definition np_argmax :: "npfloat list \<Rightarrow> error + nat" where
  "np_argmax xs = (case xs of [] \<Rightarrow> Inl ValueError | x # rest \<Rightarrow> Inr (argmax_from 0 x 1 rest))"

definition np_argmin :: "npfloat list \<Rightarrow> error + nat" where
  "np_argmin xs = (case xs of [] \<Rightarrow> Inl ValueError | x # rest \<Rightarrow> Inr (argmin_from 0 x 1 rest))"

text \<open>The slice \<open>a[i:j]\<close> for bounds \<open>0 \<le> i\<close>, \<open>0 \<le> j\<close>; it never raises.\<close>

definition slice :: "'a list \<Rightarrow> nat \<Rightarrow> nat \<Rightarrow> 'a list" where
  "slice a i j = drop i (take j a)"

text \<open>\<open>np.pad(a, (0, k), 'constant', constant_values=v)\<close> on a float array.\<close>

definition np_pad :: "npfloat list \<Rightarrow> nat \<Rightarrow> npfloat \<Rightarrow> npfloat list" where
  "np_pad a k v = a @ replicate k v"

definition np_zeros :: "nat \<Rightarrow> npfloat list" where
  "np_zeros n = replicate n (Fin 0)"

section \<open>Feature engineering\<close>

subsection \<open>Serving: \<open>api/ml_server.py\<close>, \<open>MLPredictor.create_engineered_features\<close>\<close>

text \<open>
  The activity pattern as a sequence of floats: a float array, or a list that holds at least
  one float. A list of integers only is treated by \<open>create_engineered_features_ints\<close>
  below, because \<open>np.pad\<close> keeps the integer type of such a window. The integer indices
  \<open>peak_hour\<close> and \<open>trough_hour\<close> become floats when the feature list is turned into an
  array.
\<close>

definition create_engineered_features :: "npfloat list \<Rightarrow> error + npfloat list" where
  "create_engineered_features pattern =
     (if length pattern = 0 then Inr (np_zeros 9)
      else
        let pattern_24h = (if length pattern \<ge> 24 then take 24 pattern else pattern);
            pattern_24h =
              (if length pattern_24h < 24
               then (let mean_val = np_mean pattern_24h
                     in np_pad pattern_24h (24 - length pattern_24h) mean_val)
               else pattern_24h)
        in case np_argmax pattern_24h of Inl e \<Rightarrow> Inl e | Inr peak_hour \<Rightarrow>
           (case np_argmin pattern_24h of Inl e \<Rightarrow> Inl e | Inr trough_hour \<Rightarrow>
              (let mean_activity = np_mean pattern_24h;
                   std_activity = np_std pattern_24h;
                   morning_activity = np_mean (slice pattern_24h 6 12);
                   evening_activity = np_mean (slice pattern_24h 18 24);
                   night_activity = np_mean (slice pattern_24h 0 6)
               in Inr [Fin (real peak_hour), Fin (real trough_hour), mean_activity, std_activity,
                       morning_activity, evening_activity, night_activity,
                       np_div morning_activity (np_add evening_activity (Fin (1 / 10 ^ 6))),
                       np_div (Fin (real_of_int (int peak_hour - 12))) (Fin 12)])))"

subsection \<open>Training: \<open>models/pattern_recognizer.py\<close>, \<open>ChronotypeClassifier.create_time_based_features\<close>\<close>

text \<open>The body of the loop over the rows of \<open>X\<close>: the features of one pattern.\<close>

definition time_based_features_row :: "npfloat list \<Rightarrow> error + npfloat list" where
  "time_based_features_row pattern =
     (let pattern_24h = (if length pattern \<ge> 24 then take 24 pattern else pattern)
      in case np_argmax pattern_24h of Inl e \<Rightarrow> Inl e | Inr peak_hour \<Rightarrow>
         (case np_argmin pattern_24h of Inl e \<Rightarrow> Inl e | Inr trough_hour \<Rightarrow>
            (let mean_activity = np_mean pattern_24h;
                 std_activity = np_std pattern_24h;
                 morning_activity = np_mean (slice pattern_24h 6 12);
                 evening_activity = np_mean (slice pattern_24h 18 24);
                 night_activity = np_mean (slice pattern_24h 0 6)
             in Inr [Fin (real peak_hour), Fin (real trough_hour), mean_activity, std_activity,
                     morning_activity, evening_activity, night_activity,
                     np_div morning_activity (np_add evening_activity (Fin (1 / 10 ^ 6))),
                     np_div (Fin (real_of_int (int peak_hour - 12))) (Fin 12)])))"

fun create_time_based_features :: "npfloat list list \<Rightarrow> error + npfloat list list" where
  "create_time_based_features [] = Inr []"
| "create_time_based_features (pattern # X) =
     (case time_based_features_row pattern of
        Inl e \<Rightarrow> Inl e
      | Inr user_features \<Rightarrow>
          (case create_time_based_features X of
             Inl e \<Rightarrow> Inl e
           | Inr features \<Rightarrow> Inr (user_features # features)))"

subsection \<open>The computation both functions run on their window\<close>

text \<open>
  From \<open>peak_hour = np.argmax(pattern_24h)\<close> to the feature list the two functions have
  the same text; \<open>window_features\<close> names it, and \<open>serving_window\<close> and
  \<open>training_window\<close> below show that each function is this computation applied to its
  own window.
\<close>

definition window_features :: "npfloat list \<Rightarrow> error + npfloat list" where
  "window_features pattern_24h =
     (case np_argmax pattern_24h of Inl e \<Rightarrow> Inl e | Inr peak_hour \<Rightarrow>
        (case np_argmin pattern_24h of Inl e \<Rightarrow> Inl e | Inr trough_hour \<Rightarrow>
           (let mean_activity = np_mean pattern_24h;
                std_activity = np_std pattern_24h;
                morning_activity = np_mean (slice pattern_24h 6 12);
                evening_activity = np_mean (slice pattern_24h 18 24);
                night_activity = np_mean (slice pattern_24h 0 6)
            in Inr [Fin (real peak_hour), Fin (real trough_hour), mean_activity, std_activity,
                    morning_activity, evening_activity, night_activity,
                    np_div morning_activity (np_add evening_activity (Fin (1 / 10 ^ 6))),
                    np_div (Fin (real_of_int (int peak_hour - 12))) (Fin 12)])))"

text \<open>A ten-hour activity window: the first ten samples of the pattern of the \<open>/test\<close> endpoint.\<close>

definition ten_hour_window :: "npfloat list" where
  "ten_hour_window = map Fin [0.3, 0.2, 0.1, 0.1, 0.2, 0.4, 0.7, 0.9, 0.8, 0.9]"

section \<open>Chronotype inference: \<open>api/ml_server.py\<close>, \<open>MLPredictor\<close>\<close>

text \<open>
  The external collaborators are consumed as capabilities: each maps one row of floats to
  one row of floats or raises. \<open>encoder\<close> is the \<open>encoder\<close> attribute of the
  \<open>CircadianAutoencoder\<close> object (its \<open>encode_patterns\<close> on one row), \<open>None\<close> until a
  model is loaded.
\<close>

type_synonym capability = "npfloat list \<Rightarrow> error + npfloat list"

record circadian_autoencoder =
  encoder :: "capability option"

record ml_predictor =
  autoencoder :: "circadian_autoencoder option"
  classifier_model :: "capability option"
  classifier_scaler :: "capability option"
  models_loaded :: bool

text \<open>
  What \<open>load_models\<close> finds on disk: the autoencoder object after its construction and
  its \<open>load_model\<close> ran (\<open>None\<close> if the constructor raised) and whether one of the two
  raised, whether the two classifier files exist, and what loading each of them gives.
\<close>

record model_store =
  autoencoder_after_load :: "circadian_autoencoder option"
  autoencoder_load_raises :: bool
  classifier_path_exists :: bool
  scaler_path_exists :: bool
  classifier_load :: "error + capability"
  scaler_load :: "error + capability"

definition load_models :: "model_store \<Rightarrow> ml_predictor \<Rightarrow> ml_predictor" where
  "load_models store self =
     (let self = self\<lparr>autoencoder := autoencoder_after_load store\<rparr>
      in if autoencoder_load_raises store then self\<lparr>models_loaded := False\<rparr>
         else if classifier_path_exists store \<and> scaler_path_exists store then
           (case classifier_load store of
              Inl e \<Rightarrow> self\<lparr>models_loaded := False\<rparr>
            | Inr m \<Rightarrow>
                (let self = self\<lparr>classifier_model := Some m\<rparr>
                 in case scaler_load store of
                      Inl e \<Rightarrow> self\<lparr>models_loaded := False\<rparr>
                    | Inr sc \<Rightarrow> self\<lparr>classifier_scaler := Some sc, models_loaded := True\<rparr>))
         else self)"

text \<open>\<open>MLPredictor.__init__\<close>.\<close>

definition new_predictor :: "model_store \<Rightarrow> ml_predictor" where
  "new_predictor store =
     load_models store
       \<lparr> autoencoder = None, classifier_model = None, classifier_scaler = None,
         models_loaded = False \<rparr>"

text \<open>\<open>np.max\<close>: the extreme value, NaN if one is present; raises on an empty array.\<close>

definition np_max :: "npfloat list \<Rightarrow> error + npfloat" where
  "np_max xs = (case np_argmax xs of Inl e \<Rightarrow> Inl e | Inr i \<Rightarrow> Inr (xs ! i))"

text \<open>The dictionary returned on the two failure paths of \<open>predict_chronotype\<close>.\<close>

definition failure_result :: "error_text \<Rightarrow> chronotype_result" where
  "failure_result msg =
     \<lparr> cr_error = Some msg, cr_chronotype = 1, cr_chronotype_name = None,
       cr_confidence = None, cr_success = Some False \<rparr>"

text \<open>
  The body of the \<open>try\<close> block of \<open>predict_chronotype\<close> (lines 81 to 119); \<open>Inl e\<close> is
  the exception \<open>e\<close> reaching the \<open>except\<close> clause. The activity pattern is one row.
\<close>

definition predict_try :: "ml_predictor \<Rightarrow> npfloat list \<Rightarrow> error + chronotype_result" where
  "predict_try self activity_pattern =
     (let activity_array = activity_pattern;
          activity_array =
            (if length activity_pattern < 720
             then (let mean_val = np_mean activity_pattern
                   in np_pad activity_array (720 - length activity_pattern) mean_val)
             else if length activity_pattern > 720 then take 720 activity_array
             else activity_array)
      in case (case autoencoder self of
                 None \<Rightarrow> Inr (take 32 activity_array)
               | Some ae \<Rightarrow>
                   (case encoder ae of
                      None \<Rightarrow> Inr (take 32 activity_array)
                    | Some encode_patterns \<Rightarrow> encode_patterns activity_array)) of
           Inl e \<Rightarrow> Inl e
         | Inr autoencoder_features \<Rightarrow>
        (case create_engineered_features
                (if length activity_pattern \<ge> 24 then take 24 activity_pattern
                 else activity_pattern) of
           Inl e \<Rightarrow> Inl e
         | Inr engineered_features \<Rightarrow>
        (let combined_features = autoencoder_features @ engineered_features
         in case classifier_scaler self of
              None \<Rightarrow> Inl AttributeError
            | Some transform \<Rightarrow>
        (case transform combined_features of
           Inl e \<Rightarrow> Inl e
         | Inr scaled_features \<Rightarrow>
        (case classifier_model self of
           None \<Rightarrow> Inl AttributeError
         | Some predict \<Rightarrow>
        (case predict scaled_features of
           Inl e \<Rightarrow> Inl e
         | Inr prediction \<Rightarrow>
        (case np_argmax prediction of
           Inl e \<Rightarrow> Inl e
         | Inr chronotype' \<Rightarrow>
        (case np_max prediction of
           Inl e \<Rightarrow> Inl e
         | Inr confidence' \<Rightarrow>
             if chronotype' < length chronotype_names
             then Inr (prediction_result (int chronotype') confidence')
             else Inl IndexError))))))))"

definition predict_chronotype :: "ml_predictor \<Rightarrow> npfloat list \<Rightarrow> chronotype_result" where
  "predict_chronotype self activity_pattern =
     (if \<not> models_loaded self then failure_result (Message ''Models not loaded'')
      else case predict_try self activity_pattern of
             Inl e \<Rightarrow> failure_result (Str e)
           | Inr result \<Rightarrow> result)"

text \<open>The endpoint \<open>/calculate_circadian_rate\<close> on the fields of a well-formed request.\<close>

definition calculate_circadian_rate ::
  "ml_predictor \<Rightarrow> int \<Rightarrow> int \<Rightarrow> npfloat list \<Rightarrow> error + rate_response" where
  "calculate_circadian_rate predictor base_rate' current_hour' user_activity =
     circadian_rate base_rate' current_hour' (predict_chronotype predictor user_activity)"

text \<open>A store with no model files at all.\<close>

definition empty_store :: model_store where
  "empty_store =
     \<lparr> autoencoder_after_load = Some \<lparr>encoder = None\<rparr>, autoencoder_load_raises = False,
       classifier_path_exists = False, scaler_path_exists = False,
       classifier_load = Inl LibraryError, scaler_load = Inl LibraryError \<rparr>"

section \<open>Array access, clipping, truncation, random choice and loops\<close>

text \<open>
  Reading and writing one element of an array at a Python integer index: a negative
  index counts from the end, an index outside the array raises \<open>IndexError\<close>.
\<close>

definition np_get :: "'a list \<Rightarrow> int \<Rightarrow> error + 'a" where
  "np_get a i =
     (let n = int (length a); j = (if i < 0 then n + i else i)
      in if 0 \<le> j \<and> j < n then Inr (a ! nat j) else Inl IndexError)"

definition np_set :: "'a list \<Rightarrow> int \<Rightarrow> 'a \<Rightarrow> error + 'a list" where
  "np_set a i v =
     (let n = int (length a); j = (if i < 0 then n + i else i)
      in if 0 \<le> j \<and> j < n then Inr (a[nat j := v]) else Inl IndexError)"

text \<open>\<open>np.clip(x, lo, hi)\<close>, that is \<open>minimum(maximum(x, lo), hi)\<close>; a NaN stays a NaN.\<close>

fun np_clip :: "npfloat \<Rightarrow> real \<Rightarrow> real \<Rightarrow> npfloat" where
  "np_clip (Fin x) lo hi = Fin (min (max x lo) hi)"
| "np_clip PosInf lo hi = Fin hi"
| "np_clip NegInf lo hi = Fin lo"
| "np_clip NaN lo hi = NaN"

text \<open>Python's \<open>int(x)\<close> on a float: truncation towards zero.\<close>

definition py_int :: "real \<Rightarrow> int" where
  "py_int x = (if 0 \<le> x then \<lfloor>x\<rfloor> else \<lceil>x\<rceil>)"

text \<open>
  The failure conditions of \<open>np.random.choice(a, size, replace=False)\<close> for a population
  of \<open>pop_size\<close> elements: a negative size, an empty population unless no sample is taken,
  a sample larger than the population. Otherwise the call returns its sample, which the
  random source decides: \<open>outcome\<close>.
\<close>

definition np_random_choice :: "nat \<Rightarrow> int \<Rightarrow> 'a list \<Rightarrow> error + 'a list" where
  "np_random_choice pop_size size' outcome =
     (if size' < 0 then Inl ValueError
      else if pop_size = 0 \<and> size' \<noteq> 0 then Inl ValueError
      else if size' > int pop_size then Inl ValueError
      else Inr outcome)"

text \<open>A \<open>for\<close> loop whose body may raise: the first exception ends the loop.\<close>

fun for_loop :: "('a \<Rightarrow> 's \<Rightarrow> error + 's) \<Rightarrow> 'a list \<Rightarrow> 's \<Rightarrow> error + 's" where
  "for_loop body [] s = Inr s"
| "for_loop body (x # xs) s =
     (case body x s of Inl e \<Rightarrow> Inl e | Inr s' \<Rightarrow> for_loop body xs s')"

section \<open>Feature engineering on a window of integers\<close>

text \<open>
  \<open>predict_chronotype\<close> hands the list of the request to
  \<open>create_engineered_features\<close> as it is. When every element of the list is a Python
  \<open>int\<close>, \<open>np.mean\<close> still returns a float, but \<open>np.pad\<close> turns the list into an
  \<open>int64\<close> array and stores \<open>constant_values\<close> into it: the float is cast to \<open>int64\<close>,
  that is truncated towards zero (the value given for a non-finite float is the one of
  x86-64; the mean of a non-empty integer array is finite, so the function never asks for
  it).
\<close>

definition np_cast_int :: "npfloat \<Rightarrow> int" where
  "np_cast_int v = (case v of Fin r \<Rightarrow> py_int r | _ \<Rightarrow> - (2 ^ 63))"

text \<open>\<open>np.pad(a, (0, k), 'constant', constant_values=v)\<close> on an array of integers.\<close>

definition np_pad_int :: "int list \<Rightarrow> nat \<Rightarrow> npfloat \<Rightarrow> int list" where
  "np_pad_int a k v = a @ replicate k (np_cast_int v)"

text \<open>The integers of an array read as floats, as \<open>np.mean\<close>, \<open>np.std\<close> and the division do.\<close>

definition as_float :: "int list \<Rightarrow> npfloat list" where
  "as_float a = map (\<lambda>i. Fin (real_of_int i)) a"

text \<open>
  \<open>MLPredictor.create_engineered_features\<close> on a list of integers: the same statements,
  with the padding done on the integer array.
\<close>

definition create_engineered_features_ints :: "int list \<Rightarrow> error + npfloat list" where
  "create_engineered_features_ints pattern =
     (if length pattern = 0 then Inr (np_zeros 9)
      else
        let pattern_24h = (if length pattern \<ge> 24 then take 24 pattern else pattern);
            pattern_24h =
              (if length pattern_24h < 24
               then (let mean_val = np_mean (as_float pattern_24h)
                     in np_pad_int pattern_24h (24 - length pattern_24h) mean_val)
               else pattern_24h);
            pattern_24h = as_float pattern_24h
        in case np_argmax pattern_24h of Inl e \<Rightarrow> Inl e | Inr peak_hour \<Rightarrow>
           (case np_argmin pattern_24h of Inl e \<Rightarrow> Inl e | Inr trough_hour \<Rightarrow>
              (let mean_activity = np_mean pattern_24h;
                   std_activity = np_std pattern_24h;
                   morning_activity = np_mean (slice pattern_24h 6 12);
                   evening_activity = np_mean (slice pattern_24h 18 24);
                   night_activity = np_mean (slice pattern_24h 0 6)
               in Inr [Fin (real peak_hour), Fin (real trough_hour), mean_activity, std_activity,
                       morning_activity, evening_activity, night_activity,
                       np_div morning_activity (np_add evening_activity (Fin (1 / 10 ^ 6))),
                       np_div (Fin (real_of_int (int peak_hour - 12))) (Fin 12)])))"

section \<open>Oscillator and population: \<open>data-generation/van_der_pol_generator.py\<close>\<close>

subsection \<open>\<open>CircadianVanDerPolGenerator\<close>\<close>

record circadian_generator =
  gen_mu :: real
  gen_tau :: real
  gen_omega :: real
  gen_noise_level :: real

text \<open>\<open>__init__\<close>: \<open>2 * np.pi / tau\<close> on Python floats raises for \<open>tau = 0\<close>.\<close>

definition new_generator :: "real \<Rightarrow> real \<Rightarrow> real \<Rightarrow> error + circadian_generator" where
  "new_generator mu' tau' noise_level' =
     (if tau' = 0 then Inl ZeroDivisionError
      else Inr \<lparr>gen_mu = mu', gen_tau = tau', gen_omega = 2 * pi / tau',
                gen_noise_level = noise_level'\<rparr>)"

record oscillator_parameters =
  mu :: real
  tau :: real
  noise_level :: real
  days :: int

record raw_solution_data =
  rs_time :: "real list"
  rs_x :: "npfloat list"
  rs_y :: "npfloat list"
  rs_activity_raw :: "npfloat list"

text \<open>
  The dictionary returned by \<open>generate_circadian_oscillation\<close>. The raw solution is not
  written to the population file, so it is \<open>None\<close> for a subject read back from it.
\<close>

record oscillation =
  time_hours :: "int list"
  activity_level :: "npfloat list"
  parameters :: oscillator_parameters
  raw_solution :: "raw_solution_data option"

text \<open>
  \<open>np.linspace(start, stop, num)\<close>: \<open>num\<close> evenly spaced points from \<open>start\<close> to \<open>stop\<close>
  inclusive, \<open>start + k * step\<close> with \<open>step = (stop - start) / (num - 1)\<close>, in exact
  arithmetic; a negative \<open>num\<close> raises.
\<close>

definition np_linspace :: "real \<Rightarrow> real \<Rightarrow> int \<Rightarrow> error + real list" where
  "np_linspace start stop num =
     (if num < 0 then Inl ValueError
      else Inr (map (\<lambda>k. start + real k * ((stop - start) / real_of_int (num - 1)))
                  [0..<nat num]))"

definition np_min :: "npfloat list \<Rightarrow> error + npfloat" where
  "np_min xs = (case np_argmin xs of Inl e \<Rightarrow> Inl e | Inr i \<Rightarrow> Inr (xs ! i))"

text \<open>
  scipy's \<open>odeint\<close> is an external collaborator: for the generator (its equations and
  parameters) and the time grid it returns one state \<open>(x, y)\<close> per grid point, or raises
  (\<open>None\<close>).
\<close>

type_synonym integrator = "circadian_generator \<Rightarrow> real list \<Rightarrow> (npfloat \<times> npfloat) list option"

text \<open>
  The body of the loop over \<open>range(total_hours)\<close>: the mask of the grid points in
  \<open>[hour, hour + 1)\<close>, and, when the mask selects a point, the hour and the mean of the
  selected samples are appended. Indexing with a mask of another length than the array
  raises \<open>IndexError\<close>.
\<close>

definition hour_step ::
  "real list \<Rightarrow> npfloat list \<Rightarrow> int \<Rightarrow> int list \<times> npfloat list
     \<Rightarrow> error + int list \<times> npfloat list" where
  "hour_step t activity_with_noise hour st =
     (let (hourly_times, hourly_activities) = st;
          hour_indices = map (\<lambda>x. real_of_int hour \<le> x \<and> x < real_of_int hour + 1) t
      in if True \<in> set hour_indices then
           (if length hour_indices \<noteq> length activity_with_noise then Inl IndexError
            else Inr (hourly_times @ [hour],
                      hourly_activities @
                        [np_mean (map snd (filter fst (zip hour_indices activity_with_noise)))]))
         else Inr (hourly_times, hourly_activities))"

text \<open>
  \<open>normal k\<close> is the \<open>k\<close>-th standard normal variate of the call
  \<open>np.random.normal(0, self.noise_level, n)\<close>, which raises for a negative scale.
\<close>

definition generate_circadian_oscillation ::
  "integrator \<Rightarrow> (nat \<Rightarrow> real) \<Rightarrow> circadian_generator \<Rightarrow> int \<Rightarrow> int \<Rightarrow> error + oscillation" where
  "generate_circadian_oscillation odeint normal self days' hours_per_day =
     (let total_hours = days' * hours_per_day
      in case np_linspace 0 (real_of_int total_hours) (total_hours * 4) of
           Inl e \<Rightarrow> Inl e
         | Inr t \<Rightarrow>
        (case odeint self t of
           None \<Rightarrow> Inl LibraryError
         | Some solution \<Rightarrow>
        (let activity_raw = map fst solution
         in case np_min activity_raw of
              Inl e \<Rightarrow> Inl e
            | Inr lowest \<Rightarrow>
        (case np_max activity_raw of
           Inl e \<Rightarrow> Inl e
         | Inr highest \<Rightarrow>
        (let activity_normalized =
               map (\<lambda>x. np_div (np_sub x lowest) (np_sub highest lowest)) activity_raw;
             activity_normalized =
               map (\<lambda>x. np_add (Fin 0.1) (np_mul (Fin 0.9) x)) activity_normalized
         in if gen_noise_level self < 0 then Inl ValueError
            else
              (let noise = map (\<lambda>k. Fin (gen_noise_level self * normal k))
                             [0..<length activity_normalized];
                   activity_with_noise =
                     map (\<lambda>(a, n). np_clip (np_add a n) 0.05 1.0)
                       (zip activity_normalized noise)
               in case for_loop (hour_step t activity_with_noise)
                         (map int [0..<nat total_hours]) ([], []) of
                    Inl e \<Rightarrow> Inl e
                  | Inr (hourly_times, hourly_activities) \<Rightarrow>
                      Inr \<lparr> time_hours = hourly_times,
                            activity_level = hourly_activities,
                            parameters =
                              \<lparr>mu = gen_mu self, tau = gen_tau self,
                               noise_level = gen_noise_level self, days = days'\<rparr>,
                            raw_solution =
                              Some \<lparr>rs_time = t, rs_x = map fst solution,
                                    rs_y = map snd solution,
                                    rs_activity_raw = activity_with_noise\<rparr> \<rparr>))))))"

subsection \<open>\<open>ChronotypeGenerator\<close>\<close>

text \<open>
  The random outcomes for one subject: the three variates in \<open>[0, 1)\<close> behind the calls of
  \<open>np.random.uniform\<close> for \<open>mu\<close>, \<open>tau\<close> and the noise level, and the standard normal
  variates of the measurement noise. \<open>np.random.uniform(low, high)\<close> is
  \<open>low + (high - low) * u\<close>.
\<close>

record subject_draws =
  u_mu :: real
  u_tau :: real
  u_noise :: real
  normal_draws :: "nat \<Rightarrow> real"

definition np_random_uniform :: "real \<Rightarrow> real \<Rightarrow> real \<Rightarrow> real" where
  "np_random_uniform low high u = low + (high - low) * u"

definition generate_early_chronotype :: "subject_draws \<Rightarrow> error + circadian_generator" where
  "generate_early_chronotype d =
     (let mu' = np_random_uniform 0.8 1.5 (u_mu d);
          tau' = np_random_uniform 22.5 23.8 (u_tau d);
          noise = np_random_uniform 0.05 0.12 (u_noise d)
      in new_generator mu' tau' noise)"

definition generate_late_chronotype :: "subject_draws \<Rightarrow> error + circadian_generator" where
  "generate_late_chronotype d =
     (let mu' = np_random_uniform 1.2 2.5 (u_mu d);
          tau' = np_random_uniform 24.2 25.5 (u_tau d);
          noise = np_random_uniform 0.08 0.18 (u_noise d)
      in new_generator mu' tau' noise)"

definition generate_intermediate_chronotype :: "subject_draws \<Rightarrow> error + circadian_generator" where
  "generate_intermediate_chronotype d =
     (let mu' = np_random_uniform 0.9 1.8 (u_mu d);
          tau' = np_random_uniform 23.8 24.2 (u_tau d);
          noise = np_random_uniform 0.06 0.15 (u_noise d)
      in new_generator mu' tau' noise)"

subsection \<open>The subject record\<close>

record travel_event =
  day :: int
  timezone_shift :: int
  recovery_days :: int

text \<open>
  One entry of \<open>population_data['users']\<close>: the dictionary returned by the oscillator
  with the class and the identifier added; the keys that the enhancer adds are \<open>None\<close>
  until it has run.
\<close>

record user_data = oscillation +
  ud_chronotype :: string
  user_id :: nat
  activity_level_with_social_jetlag :: "npfloat list option"
  activity_level_with_stress :: "npfloat list option"
  stress_events :: "nat list option"
  activity_level_with_seasonal :: "npfloat list option"
  travel_events :: "travel_event list option"
  activity_level_with_jetlag :: "npfloat list option"

subsection \<open>\<open>generate_population_data\<close>\<close>

record chronotype_distribution =
  early :: int
  late :: int
  intermediate :: int

record population_metadata =
  total_users :: int
  days_per_user :: int
  chronotype_distribution :: chronotype_distribution
  generation_timestamp :: string

text \<open>
  \<open>population_data\<close>. The \<open>users\<close> dictionary is kept in insertion order and keyed by
  the subject's number \<open>user_id\<close>, which determines its key \<open>f'user_{user_id:04d}'\<close>;
  assigning to a key replaces the entry of that key or appends a new one.
\<close>

record population_data =
  users :: "(nat \<times> user_data) list"
  metadata :: population_metadata

text \<open>The dictionary \<open>{'chronotype': ..., 'user_id': user_id, **data}\<close>.\<close>

definition user_entry :: "string \<Rightarrow> nat \<Rightarrow> oscillation \<Rightarrow> user_data" where
  "user_entry chronotype' user_id' data =
     \<lparr> time_hours = time_hours data, activity_level = activity_level data,
       parameters = parameters data, raw_solution = raw_solution data,
       ud_chronotype = chronotype', user_id = user_id',
       activity_level_with_social_jetlag = None, activity_level_with_stress = None,
       stress_events = None, activity_level_with_seasonal = None, travel_events = None,
       activity_level_with_jetlag = None \<rparr>"

text \<open>
  The body of each of the three loops of \<open>generate_population_data\<close>, for the class with
  the given name and sampler; the state is the \<open>users\<close> dictionary and \<open>user_id\<close>.
  \<open>draws\<close> gives the random outcomes for each subject number.
\<close>

definition generate_user ::
  "integrator \<Rightarrow> (nat \<Rightarrow> subject_draws) \<Rightarrow> string
     \<Rightarrow> (subject_draws \<Rightarrow> error + circadian_generator) \<Rightarrow> int \<Rightarrow> int
     \<Rightarrow> (nat \<times> user_data) list \<times> nat \<Rightarrow> error + (nat \<times> user_data) list \<times> nat" where
  "generate_user odeint draws chronotype' sampler days' i st =
     (let (users', user_id') = st
      in case sampler (draws user_id') of
           Inl e \<Rightarrow> Inl e
         | Inr generator \<Rightarrow>
             (case generate_circadian_oscillation odeint (normal_draws (draws user_id'))
                     generator days' 24 of
                Inl e \<Rightarrow> Inl e
              | Inr data \<Rightarrow>
                  Inr (AList.update user_id' (user_entry chronotype' user_id' data) users',
                       user_id' + 1)))"

text \<open>\<open>now\<close> is the text of \<open>np.datetime64('now')\<close>.\<close>

definition generate_population_data ::
  "integrator \<Rightarrow> (nat \<Rightarrow> subject_draws) \<Rightarrow> string \<Rightarrow> int \<Rightarrow> int \<Rightarrow> error + population_data" where
  "generate_population_data odeint draws now n_users days' =
     (let n_early = py_int (0.25 * real_of_int n_users);
          n_late = py_int (0.25 * real_of_int n_users);
          n_intermediate = n_users - n_early - n_late;
          metadata' =
            \<lparr> total_users = n_users, days_per_user = days',
              chronotype_distribution =
                \<lparr>early = n_early, late = n_late, intermediate = n_intermediate\<rparr>,
              generation_timestamp = now \<rparr>
      in case for_loop (generate_user odeint draws ''early'' generate_early_chronotype days')
                (map int [0..<nat n_early]) ([], 0) of
           Inl e \<Rightarrow> Inl e
         | Inr st1 \<Rightarrow>
        (case for_loop (generate_user odeint draws ''late'' generate_late_chronotype days')
                (map int [0..<nat n_late]) st1 of
           Inl e \<Rightarrow> Inl e
         | Inr st2 \<Rightarrow>
        (case for_loop
                (generate_user odeint draws ''intermediate'' generate_intermediate_chronotype
                   days')
                (map int [0..<nat n_intermediate]) st2 of
           Inl e \<Rightarrow> Inl e
         | Inr (users', user_id') \<Rightarrow> Inr \<lparr>users = users', metadata = metadata'\<rparr>)))"

text \<open>The number of subjects of a class in a population.\<close>

definition class_count :: "string \<Rightarrow> population_data \<Rightarrow> int" where
  "class_count c pop = int (length (filter (\<lambda>(k, u). ud_chronotype u = c) (users pop)))"

text \<open>
  What the proofs assume of the collaborators: the integrator returns one state per grid
  point of a non-empty grid, and the uniform variates lie in \<open>[0, 1)\<close>.
\<close>

definition integrator_returns :: "integrator \<Rightarrow> bool" where
  "integrator_returns odeint =
     (\<forall>g t. t \<noteq> [] \<longrightarrow> (\<exists>solution. odeint g t = Some solution \<and> length solution = length t))"

definition unit_draws :: "subject_draws \<Rightarrow> bool" where
  "unit_draws d =
     (0 \<le> u_mu d \<and> u_mu d < 1 \<and> 0 \<le> u_tau d \<and> u_tau d < 1 \<and> 0 \<le> u_noise d \<and> u_noise d < 1)"

text \<open>
  The shape of what the integrator returns, when it returns, on any grid, the empty one
  included: one state per grid point.
\<close>

definition one_state_per_point :: "integrator \<Rightarrow> bool" where
  "one_state_per_point odeint =
     (\<forall>g t solution. odeint g t = Some solution \<longrightarrow> length solution = length t)"

text \<open>
  A sampler returns, with a scale the noise call accepts, on variates of \<open>[0, 1)\<close>; a block
  of \<open>n\<close> consecutive subject numbers from \<open>first\<close> on, all of one class.
\<close>

definition sampler_returns :: "(subject_draws \<Rightarrow> error + circadian_generator) \<Rightarrow> bool" where
  "sampler_returns sampler =
     (\<forall>d. unit_draws d \<longrightarrow> (\<exists>g. sampler d = Inr g \<and> 0 \<le> gen_noise_level g))"

definition class_block :: "string \<Rightarrow> nat \<Rightarrow> nat \<Rightarrow> (nat \<times> user_data) list \<Rightarrow> bool" where
  "class_block c first n block =
     (map fst block = [first..<first + n] \<and> list_all (\<lambda>p. ud_chronotype (snd p) = c) block)"

text \<open>An integrator and random outcomes to run the definitions on.\<close>

definition constant_integrator :: integrator where
  "constant_integrator g t = Some (map (\<lambda>x. (Fin 1, Fin 0)) t)"

definition sample_subject_draws :: subject_draws where
  "sample_subject_draws = \<lparr>u_mu = 0.5, u_tau = 0.5, u_noise = 0.5, normal_draws = (\<lambda>k. 0)\<rparr>"

section \<open>Behavioural perturbations: \<open>data-generation/synthetic_user_patterns.py\<close>\<close>

subsection \<open>\<open>BehavioralPatternEnhancer.add_social_jetlag\<close>\<close>

text \<open>
  \<open>shift_draw k\<close> is the value of the \<open>k\<close>-th call of \<open>np.random.uniform(1, 3)\<close>. The
  loop state is the array and the number of draws made so far.
\<close>

definition social_jetlag_step ::
  "(nat \<Rightarrow> real) \<Rightarrow> nat \<times> int \<Rightarrow> npfloat list \<times> nat \<Rightarrow> error + npfloat list \<times> nat" where
  "social_jetlag_step shift_draw ih st =
     (let (i, hour) = ih; (activity, k) = st;
          day_of_week = (hour div 24) mod 7;
          hour_of_day = hour mod 24
      in if day_of_week \<in> set [5, 6] \<or> (day_of_week = 4 \<and> hour_of_day \<ge> 18) then
           (let shift = shift_draw k;
                phase_shift = py_int shift
            in if int i + phase_shift < int (length activity) then
                 (case np_get activity (int i + phase_shift) of
                    Inl e \<Rightarrow> Inl e
                  | Inr v \<Rightarrow>
                      (case np_set activity (int i) v of
                         Inl e \<Rightarrow> Inl e
                       | Inr activity' \<Rightarrow> Inr (activity', Suc k)))
               else Inr (activity, Suc k))
         else Inr (activity, k))"

definition add_social_jetlag :: "(nat \<Rightarrow> real) \<Rightarrow> user_data \<Rightarrow> error + user_data" where
  "add_social_jetlag shift_draw user =
     (let activity = activity_level user
      in case for_loop (social_jetlag_step shift_draw) (List.enumerate 0 (time_hours user))
                (activity, 0) of
           Inl e \<Rightarrow> Inl e
         | Inr (activity', k) \<Rightarrow>
             Inr (user\<lparr>activity_level_with_social_jetlag := Some activity'\<rparr>))"

subsection \<open>\<open>BehavioralPatternEnhancer.add_stress_patterns\<close>\<close>

definition stress_factors :: "string \<rightharpoonup> real" where
  "stress_factors = map_of [(''early'', 0.05), (''intermediate'', 0.10), (''late'', 0.15)]"

text \<open>
  The random outcomes of one call: the value of \<open>np.random.uniform(0.05, 0.10)\<close>, the array
  returned by \<open>np.random.choice\<close>, and the \<open>k\<close>-th value of
  \<open>np.random.normal(0, stress_level * 0.5)\<close>.
\<close>

record stress_draws =
  stress_fraction :: real
  stress_days_outcome :: "nat list"
  stress_noise :: "nat \<Rightarrow> real"

definition stress_hour :: "real \<Rightarrow> (nat \<Rightarrow> real) \<Rightarrow> nat \<Rightarrow> npfloat list \<times> nat \<Rightarrow> npfloat list \<times> nat" where
  "stress_hour stress_level noise i st =
     (let (activity, k) = st;
          a = np_mul (activity ! i) (Fin (1 - stress_level));
          a = np_add a (Fin (noise k));
          a = np_clip a 0.05 1.0
      in (activity[i := a], Suc k))"

definition stress_day_loop ::
  "real \<Rightarrow> (nat \<Rightarrow> real) \<Rightarrow> nat \<Rightarrow> npfloat list \<times> nat \<Rightarrow> npfloat list \<times> nat" where
  "stress_day_loop stress_level noise stress_day st =
     (let start_hour = stress_day * 24;
          end_hour = min (start_hour + 24) (length (fst st))
      in fold (stress_hour stress_level noise) [start_hour..<end_hour] st)"

definition add_stress_patterns :: "stress_draws \<Rightarrow> user_data \<Rightarrow> error + user_data" where
  "add_stress_patterns draws user =
     (let activity = activity_level user;
          chronotype' = ud_chronotype user
      in case stress_factors chronotype' of
           None \<Rightarrow> Inl KeyError
         | Some stress_level \<Rightarrow>
             (let n_stress_days =
                    py_int (stress_fraction draws * real (length activity div 24))
              in case np_random_choice (length activity div 24) n_stress_days
                        (stress_days_outcome draws) of
                   Inl e \<Rightarrow> Inl e
                 | Inr stress_days \<Rightarrow>
                     (let (activity', k) =
                            fold (stress_day_loop stress_level (stress_noise draws)) stress_days
                              (activity, 0)
                      in Inr (user\<lparr>activity_level_with_stress := Some activity',
                                    stress_events := Some stress_days\<rparr>))))"

subsection \<open>\<open>BehavioralPatternEnhancer.add_seasonal_variation\<close>\<close>

definition seasonal_strengths :: "string \<rightharpoonup> real" where
  "seasonal_strengths = map_of [(''early'', 0.05), (''intermediate'', 0.10), (''late'', 0.20)]"

definition seasonal_step :: "real \<Rightarrow> nat \<times> int \<Rightarrow> npfloat list \<Rightarrow> error + npfloat list" where
  "seasonal_step seasonal_strength ih activity =
     (let (i, hour) = ih;
          day_of_year = (hour div 24) mod 365;
          seasonal_factor =
            1 + seasonal_strength * cos (2 * pi * real_of_int (day_of_year - 80) / 365)
      in case np_get activity (int i) of
           Inl e \<Rightarrow> Inl e
         | Inr a \<Rightarrow>
             (let a = np_mul a (Fin seasonal_factor);
                  a = np_clip a 0.05 1.0
              in np_set activity (int i) a))"

definition add_seasonal_variation :: "user_data \<Rightarrow> error + user_data" where
  "add_seasonal_variation user =
     (let activity = activity_level user
      in case seasonal_strengths (ud_chronotype user) of
           None \<Rightarrow> Inl KeyError
         | Some seasonal_strength \<Rightarrow>
             (case for_loop (seasonal_step seasonal_strength)
                     (List.enumerate 0 (time_hours user)) activity of
                Inl e \<Rightarrow> Inl e
              | Inr activity' \<Rightarrow> Inr (user\<lparr>activity_level_with_seasonal := Some activity'\<rparr>)))"

subsection \<open>\<open>BehavioralPatternEnhancer.add_travel_jetlag\<close>\<close>

text \<open>
  The random outcomes of one call: the array of trip days returned by \<open>np.random.choice\<close>
  (days of \<open>range(7, total_days - 7)\<close>, hence natural numbers), for the \<open>j\<close>-th trip the
  drawn time-zone shift and the value of \<open>np.random.randint(3, 8)\<close>, and the \<open>k\<close>-th
  standard normal variate; \<open>np.random.normal(0, scale)\<close> is \<open>scale\<close> times that variate
  (the scale is never negative here, so the call does not raise).
\<close>

record travel_draws =
  trip_days_outcome :: "nat list"
  timezone_shift_draw :: "nat \<Rightarrow> int"
  recovery_days_draw :: "nat \<Rightarrow> int"
  standard_normal :: "nat \<Rightarrow> real"

definition jetlag_hour :: "real \<Rightarrow> (nat \<Rightarrow> real) \<Rightarrow> nat \<Rightarrow> npfloat list \<times> nat \<Rightarrow> npfloat list \<times> nat" where
  "jetlag_hour shift_strength normal hour_idx st =
     (let (activity, k) = st;
          a = np_mul (activity ! hour_idx) (Fin (1 - shift_strength * 0.3));
          a = np_add a (Fin ((shift_strength * 0.2) * normal k));
          a = np_clip a 0.05 1.0
      in (activity[hour_idx := a], Suc k))"

definition recovery_day_loop ::
  "nat \<Rightarrow> nat \<Rightarrow> int \<Rightarrow> int \<Rightarrow> (nat \<Rightarrow> real) \<Rightarrow> nat \<Rightarrow> npfloat list \<times> nat \<Rightarrow> npfloat list \<times> nat" where
  "recovery_day_loop total_days trip_day timezone_shift' recovery_days' normal recovery_day st =
     (let day_idx = trip_day + recovery_day
      in if day_idx < total_days then
           (let start_hour = day_idx * 24;
                end_hour = min (start_hour + 24) (length (fst st));
                recovery_factor = real recovery_day / real_of_int recovery_days';
                shift_strength = real_of_int \<bar>timezone_shift'\<bar> * (1 - recovery_factor) / 8
            in fold (jetlag_hour shift_strength normal) [start_hour..<end_hour] st)
         else st)"

definition trip_loop ::
  "travel_draws \<Rightarrow> nat \<Rightarrow> nat \<times> nat \<Rightarrow> (npfloat list \<times> nat) \<times> travel_event list
     \<Rightarrow> (npfloat list \<times> nat) \<times> travel_event list" where
  "trip_loop draws total_days jt st =
     (let (j, trip_day) = jt; (ak, travel_events') = st;
          timezone_shift' = timezone_shift_draw draws j;
          recovery_days' = recovery_days_draw draws j;
          travel_events' =
            travel_events' @
              [\<lparr>day = int trip_day, timezone_shift = timezone_shift',
                recovery_days = recovery_days'\<rparr>]
      in (fold (recovery_day_loop total_days trip_day timezone_shift' recovery_days'
                  (standard_normal draws))
            [0..<nat recovery_days'] ak,
          travel_events'))"

definition add_travel_jetlag :: "travel_draws \<Rightarrow> user_data \<Rightarrow> int \<Rightarrow> error + user_data" where
  "add_travel_jetlag draws user n_trips =
     (let activity = activity_level user;
          total_days = length (time_hours user) div 24
      in if n_trips > 0 \<and> total_days > 7 then
           (case np_random_choice (length [7..<total_days - 7])
                   (min n_trips (int (total_days div 10))) (trip_days_outcome draws) of
              Inl e \<Rightarrow> Inl e
            | Inr trip_days \<Rightarrow>
                (let ((activity', k), travel_events') =
                       fold (trip_loop draws total_days) (List.enumerate 0 trip_days)
                         ((activity, 0), [])
                 in Inr (user\<lparr>travel_events := Some travel_events',
                               activity_level_with_jetlag := Some activity'\<rparr>)))
         else Inr (user\<lparr>travel_events := Some [],
                        activity_level_with_jetlag := Some activity\<rparr>))"

text \<open>The physiological band \<open>[0.05, 1.0]\<close>.\<close>

definition in_band :: "npfloat \<Rightarrow> bool" where
  "in_band x = (case x of Fin r \<Rightarrow> 0.05 \<le> r \<and> r \<le> 1.0 | _ \<Rightarrow> False)"

text \<open>An array of \<open>n\<close> samples, all of them in the band.\<close>

definition band_array :: "nat \<Rightarrow> npfloat list \<Rightarrow> bool" where
  "band_array n a = (length a = n \<and> (\<forall>x \<in> set a. in_band x))"

text \<open>
  A subject of the late class with the given number of hourly samples, all 0.5, and random
  outcomes for the stress and the travel transform.
\<close>

definition sample_parameters :: oscillator_parameters where
  "sample_parameters = \<lparr>mu = 1, tau = 24, noise_level = 0.1, days = 10\<rparr>"

definition sample_user :: "nat \<Rightarrow> user_data" where
  "sample_user hours =
     \<lparr> time_hours = map int [0..<hours], activity_level = replicate hours (Fin 0.5),
       parameters = sample_parameters, raw_solution = None,
       ud_chronotype = ''late'', user_id = 0,
       activity_level_with_social_jetlag = None, activity_level_with_stress = None,
       stress_events = None, activity_level_with_seasonal = None, travel_events = None,
       activity_level_with_jetlag = None \<rparr>"

definition sample_stress_draws :: stress_draws where
  "sample_stress_draws =
     \<lparr>stress_fraction = 0.07, stress_days_outcome = [], stress_noise = (\<lambda>k. 0)\<rparr>"

definition sample_travel_draws :: travel_draws where
  "sample_travel_draws =
     \<lparr>trip_days_outcome = [], timezone_shift_draw = (\<lambda>j. 3), recovery_days_draw = (\<lambda>j. 3),
      standard_normal = (\<lambda>k. 0)\<rparr>"

section \<open>Properties of the rate adjustment\<close>

lemma hourly_multiplier_table:
  "dict_get hourly_multipliers hour 10000 = spec_hourly_multiplier hour"
proof -
  have "hour \<le> 1 \<or> hour = 2 \<or> hour = 3 \<or> hour = 4 \<or> hour = 5 \<or> hour = 6 \<or> hour = 7
        \<or> hour = 8 \<or> hour = 9 \<or> hour = 10 \<or> hour = 11 \<or> hour = 12 \<or> hour = 13
        \<or> hour = 14 \<or> hour = 15 \<or> hour = 16 \<or> hour = 17 \<or> 18 \<le> hour"
    by arith
  then show ?thesis
    by (elim disjE)
       (simp_all add: dict_get_def hourly_multipliers_def spec_hourly_multiplier_def)
qed

lemma chronotype_multiplier_table:
  "label \<in> {0, 1, 2} \<Longrightarrow>
   dict_get chronotype_adjustments label 10000 = spec_chronotype_multiplier label"
  by (auto simp: dict_get_def chronotype_adjustments_def spec_chronotype_multiplier_def)

lemma adjustRate_unfold:
  "adjustRate baseRate hour label c =
     Inr ((baseRate * dict_get hourly_multipliers hour 10000
            * dict_get chronotype_adjustments label 10000) div 100000000)"
  by (simp add: adjustRate_def circadian_rate_def prediction_result_def Let_def)

text \<open>
  Claim C2. For every integer base rate \<open>\<ge> 0\<close>, hour in \<open>[0, 23]\<close> and label in \<open>{0, 1, 2}\<close>,
  the adjusted rate is \<open>floor (baseRate * H hour * C label / 10^8)\<close>, obtained by integer
  floor division, with \<open>H\<close> and \<open>C\<close> the tables of the specification; in particular
  \<open>adjustRate 10000 3 0 c = 8075\<close> and \<open>adjustRate 10000 10 2 c = 11550\<close> for every \<open>c\<close>.
\<close>

theorem adjustRate_formula:
  assumes "0 \<le> baseRate" and "0 \<le> hour" and "hour \<le> 23" and "label \<in> {0, 1, 2}"
  shows "adjustRate baseRate hour label c =
           Inr \<lfloor>real_of_int
                  (baseRate * spec_hourly_multiplier hour * spec_chronotype_multiplier label)
                / 10 ^ 8\<rfloor>
         \<and> adjustRate baseRate hour label c =
             Inr ((baseRate * spec_hourly_multiplier hour * spec_chronotype_multiplier label)
                    div 10 ^ 8)
         \<and> adjustRate 10000 3 0 c' = Inr 8075
         \<and> adjustRate 10000 10 2 c' = Inr 11550"
proof -
  let ?p = "baseRate * spec_hourly_multiplier hour * spec_chronotype_multiplier label"
  have tables: "adjustRate baseRate hour label c = Inr (?p div 10 ^ 8)"
    using assms(4)
    by (simp only: adjustRate_unfold hourly_multiplier_table chronotype_multiplier_table)
       simp
  have "\<lfloor>real_of_int ?p / 10 ^ 8\<rfloor> = ?p div 10 ^ 8"
    using floor_divide_of_int_eq [of ?p "10 ^ 8", where ?'a = real] by simp
  moreover have "adjustRate 10000 3 0 c' = Inr 8075"
    by (simp add: adjustRate_unfold dict_get_def hourly_multipliers_def
          chronotype_adjustments_def)
  moreover have "adjustRate 10000 10 2 c' = Inr 11550"
    by (simp add: adjustRate_unfold dict_get_def hourly_multipliers_def
          chronotype_adjustments_def)
  ultimately show ?thesis using tables by simp
qed

theorem adjustRate_formula_witness:
  "(0::int) \<le> 20000 \<and> (0::int) \<le> 15 \<and> (15::int) \<le> 23 \<and> (1::int) \<in> {0, 1, 2}
   \<and> adjustRate 20000 15 1 (Fin 0.9) = Inr 22000
   \<and> adjustRate 10000 3 0 NaN = Inr 8075"
  using adjustRate_formula [of 20000 15 1 "Fin 0.9" NaN]
  by (simp add: spec_hourly_multiplier_def spec_chronotype_multiplier_def)

text \<open>
  Claim C3. The confidence argument never changes the arithmetic result: for every base
  rate, hour and label, any two confidence values give the same adjusted rate. The
  confidence is only echoed in the answer.
\<close>

theorem adjustRate_confidence_independent:
  "adjustRate baseRate hour label c1 = adjustRate baseRate hour label c2
   \<and> map_sum id confidence (circadian_rate baseRate hour (prediction_result label c1)) = Inr c1"
  by (simp add: adjustRate_def circadian_rate_def prediction_result_def Let_def)

section \<open>Properties of the feature engineering\<close>

lemma serving_window:
  "create_engineered_features pattern =
     (if pattern = [] then Inr (np_zeros 9)
      else window_features
             (if 24 \<le> length pattern then take 24 pattern
              else np_pad pattern (24 - length pattern) (np_mean pattern)))"
  unfolding create_engineered_features_def window_features_def
  by (simp add: Let_def cong: sum.case_cong)

lemma training_window:
  "time_based_features_row pattern =
     window_features (if 24 \<le> length pattern then take 24 pattern else pattern)"
  unfolding time_based_features_row_def window_features_def
  by (simp add: Let_def cong: sum.case_cong)

lemma np_argmax_nonempty: "xs \<noteq> [] \<Longrightarrow> \<exists>i. np_argmax xs = Inr i"
  by (cases xs) (simp_all add: np_argmax_def)

lemma np_argmin_nonempty: "xs \<noteq> [] \<Longrightarrow> \<exists>i. np_argmin xs = Inr i"
  by (cases xs) (simp_all add: np_argmin_def)

lemma window_features_returns:
  assumes "w \<noteq> []"
  shows "\<exists>v. window_features w = Inr v \<and> length v = 9"
proof -
  obtain i where i: "np_argmax w = Inr i" using np_argmax_nonempty [OF assms] by blast
  obtain j where j: "np_argmin w = Inr j" using np_argmin_nonempty [OF assms] by blast
  show ?thesis unfolding window_features_def i j by (simp add: Let_def)
qed

lemma window_features_empty: "window_features [] = Inl ValueError"
  by (simp add: window_features_def np_argmax_def)

lemma pad_short_window:
  assumes "0 < length pattern" and "length pattern < 24"
  shows "create_engineered_features pattern =
           create_engineered_features
             (pattern @ replicate (24 - length pattern) (np_mean pattern))"
  using assms by (simp add: serving_window np_pad_def)

lemma truncate_long_window:
  "create_engineered_features pattern = create_engineered_features (take 24 pattern)"
proof (cases "24 \<le> length pattern")
  case True
  then have "pattern \<noteq> []" by auto
  with True show ?thesis by (simp add: serving_window)
next
  case False
  then show ?thesis by simp
qed

lemma create_engineered_features_returns:
  "\<exists>v. create_engineered_features pattern = Inr v \<and> length v = 9"
proof (cases "pattern = []")
  case True
  then show ?thesis by (simp add: serving_window np_zeros_def)
next
  case False
  let ?w = "if 24 \<le> length pattern then take 24 pattern
            else np_pad pattern (24 - length pattern) (np_mean pattern)"
  have "?w \<noteq> []" using False by (auto simp: np_pad_def)
  from window_features_returns [OF this] False show ?thesis
    by (simp only: serving_window if_False)
qed

text \<open>
  On a window of floats the serving function does what its comment says: the empty window
  gives nine zeros, a window of fewer than 24 samples is padded with the mean of its
  samples, a longer one is cut to its first 24 samples, and the nine features are those of
  the resulting 24 values.
\<close>

lemma serving_features_on_floats:
  "create_engineered_features [] = Inr (replicate 9 (Fin 0))"
  "0 < length pattern \<Longrightarrow> length pattern < 24 \<Longrightarrow>
     create_engineered_features pattern =
       window_features (pattern @ replicate (24 - length pattern) (np_mean pattern))"
  "24 \<le> length pattern \<Longrightarrow>
     create_engineered_features pattern = window_features (take 24 pattern)"
  by (auto simp: serving_window np_zeros_def np_pad_def)

lemma serving_ints_window:
  "create_engineered_features_ints pattern =
     (if pattern = [] then Inr (np_zeros 9)
      else window_features
             (as_float
                (if 24 \<le> length pattern then take 24 pattern
                 else np_pad_int pattern (24 - length pattern) (np_mean (as_float pattern)))))"
  unfolding create_engineered_features_ints_def window_features_def
  by (simp add: Let_def cong: sum.case_cong)

lemma replicate_22:
  "replicate 22 x = [x, x, x, x, x, x, x, x, x, x, x, x, x, x, x, x, x, x, x, x, x, x]"
  by (simp add: eval_nat_numeral)

text \<open>
  Claim C4 says that every window of \<open>n\<close> samples, \<open>0 < n < 24\<close>, is padded to 24 values
  with the mean of the \<open>n\<close> samples, and the comment in the code says the same
  (\<open># Pad with mean if less than 24 hours\<close>). For the request
  \<open>{"activity_pattern": [1, 2]}\<close> the mean is 1.5, but the window is an integer array and
  \<open>np.pad\<close> stores the truncated mean 1 into it: the features are those of
  \<open>[1, 2, 1, ..., 1]\<close> and not those of \<open>[1, 2, 1.5, ..., 1.5]\<close>. Peak hour, trough hour,
  mean, morning, evening and night activity (features 0, 1, 2, 4, 5 and 6) are
  1, 0, 25/24, 1, 1, 7/6 where mean padding gives 1, 0, 1.5, 1.5, 1.5, 1.5; the same samples
  sent as floats, \<open>[1.0, 2.0]\<close>, are padded with 1.5.
\<close>

theorem integer_window_is_padded_with_truncated_mean:
  "np_mean (as_float [1, 2]) = Fin 1.5
   \<and> create_engineered_features_ints [1, 2]
       = window_features (as_float ([1, 2] @ replicate 22 1))
   \<and> create_engineered_features_ints [1, 2]
       \<noteq> window_features (np_pad (as_float [1, 2]) 22 (np_mean (as_float [1, 2])))
   \<and> map_sum id (\<lambda>v. map (\<lambda>k. v ! k) [0, 1, 2, 4, 5, 6])
         (create_engineered_features_ints [1, 2])
       = Inr [Fin 1, Fin 0, Fin (25 / 24), Fin 1, Fin 1, Fin (7 / 6)]
   \<and> map_sum id (\<lambda>v. map (\<lambda>k. v ! k) [0, 1, 2, 4, 5, 6])
         (window_features (np_pad (as_float [1, 2]) 22 (np_mean (as_float [1, 2]))))
       = Inr [Fin 1, Fin 0, Fin 1.5, Fin 1.5, Fin 1.5, Fin 1.5]
   \<and> map_sum id (\<lambda>v. map (\<lambda>k. v ! k) [0, 1, 2, 4, 5, 6])
         (create_engineered_features [Fin 1, Fin 2])
       = Inr [Fin 1, Fin 0, Fin 1.5, Fin 1.5, Fin 1.5, Fin 1.5]"
proof (intro conjI)
  show m: "np_mean (as_float [1, 2]) = Fin 1.5"
    by (simp add: as_float_def np_mean_def np_sum_def)
  show w: "create_engineered_features_ints [1, 2]
             = window_features (as_float ([1, 2] @ replicate 22 1))"
    by (simp add: serving_ints_window m np_pad_int_def np_cast_int_def py_int_def)
  show "create_engineered_features_ints [1, 2]
          \<noteq> window_features (np_pad (as_float [1, 2]) 22 (np_mean (as_float [1, 2])))"
    unfolding w m
    by (simp add: as_float_def np_pad_def replicate_22 window_features_def np_argmax_def
          np_argmin_def np_mean_def np_sum_def slice_def Let_def)
  show "map_sum id (\<lambda>v. map (\<lambda>k. v ! k) [0, 1, 2, 4, 5, 6])
          (create_engineered_features_ints [1, 2])
        = Inr [Fin 1, Fin 0, Fin (25 / 24), Fin 1, Fin 1, Fin (7 / 6)]"
    unfolding w
    by (simp add: as_float_def replicate_22 window_features_def np_argmax_def
          np_argmin_def np_mean_def np_sum_def slice_def Let_def)
  show f: "map_sum id (\<lambda>v. map (\<lambda>k. v ! k) [0, 1, 2, 4, 5, 6])
          (window_features (np_pad (as_float [1, 2]) 22 (np_mean (as_float [1, 2]))))
        = Inr [Fin 1, Fin 0, Fin 1.5, Fin 1.5, Fin 1.5, Fin 1.5]"
    unfolding m
    by (simp add: as_float_def np_pad_def replicate_22 window_features_def np_argmax_def
          np_argmin_def np_mean_def np_sum_def slice_def Let_def)
  have "create_engineered_features [Fin 1, Fin 2]
          = window_features (np_pad (as_float [1, 2]) 22 (np_mean (as_float [1, 2])))"
    using serving_features_on_floats(2) [of "[Fin 1, Fin 2]"]
    by (simp add: as_float_def np_pad_def)
  with f show "map_sum id (\<lambda>v. map (\<lambda>k. v ! k) [0, 1, 2, 4, 5, 6])
          (create_engineered_features [Fin 1, Fin 2])
        = Inr [Fin 1, Fin 0, Fin 1.5, Fin 1.5, Fin 1.5, Fin 1.5]"
    by simp
qed

lemma features_agree_from_24_samples:
  assumes "24 \<le> length pattern"
  shows "create_time_based_features [pattern] =
           map_sum id (\<lambda>v. [v]) (create_engineered_features pattern)"
proof -
  have ne: "pattern \<noteq> []" "take 24 pattern \<noteq> []" using assms by auto
  obtain v where "window_features (take 24 pattern) = Inr v"
    using window_features_returns [OF ne(2)] by blast
  then show ?thesis using assms ne
    by (simp add: serving_window training_window)
qed

lemma replicate_14: "replicate 14 x = [x, x, x, x, x, x, x, x, x, x, x, x, x, x]"
  by (simp add: eval_nat_numeral)

lemma training_on_ten_hours:
  "map_sum id (\<lambda>F. map (\<lambda>k. F ! 0 ! k) [0, 1, 2, 4, 5, 6, 7, 8])
     (create_time_based_features [ten_hour_window])
   = Inr [Fin 7, Fin 2, Fin 0.46, Fin 0.825, NaN, Fin (13 / 60), NaN, Fin (- 5 / 12)]"
  by (simp add: ten_hour_window_def training_window window_features_def np_argmax_def
        np_argmin_def np_mean_def np_sum_def slice_def Let_def)

lemma serving_on_ten_hours:
  "map_sum id (\<lambda>v. map (\<lambda>k. v ! k) [0, 1, 2, 4, 5, 6, 7, 8])
     (create_engineered_features ten_hour_window)
   = Inr [Fin 7, Fin 2, Fin 0.46, Fin (211 / 300), Fin 0.46, Fin (13 / 60),
          Fin (211000000 / 138000300), Fin (- 5 / 12)]"
  by (simp add: ten_hour_window_def serving_window window_features_def np_argmax_def
        np_argmin_def np_mean_def np_sum_def slice_def np_pad_def replicate_14 Let_def)

text \<open>
  Claim C1 asks that serving and training compute the same features for every window.
  They do from 24 samples on (\<open>features_agree_from_24_samples\<close>), but the training
  function has neither the padding nor the empty-window guard of the serving function:
  on the ten-hour window the evening slice \<open>[18:24]\<close> is empty in training, so the
  evening mean and the morning-to-evening ratio are NaN and the morning mean is taken
  over four samples, while serving pads with the mean 0.46 first; on the empty window
  training raises \<open>ValueError\<close> where serving returns nine zeros. The features listed are
  those at the indices 0, 1, 2, 4, 5, 6, 7, 8 (all but the standard deviation).
\<close>

theorem train_serve_features_differ:
  "create_time_based_features [ten_hour_window]
     \<noteq> map_sum id (\<lambda>v. [v]) (create_engineered_features ten_hour_window)
   \<and> map_sum id (\<lambda>F. map (\<lambda>k. F ! 0 ! k) [0, 1, 2, 4, 5, 6, 7, 8])
         (create_time_based_features [ten_hour_window])
       = Inr [Fin 7, Fin 2, Fin 0.46, Fin 0.825, NaN, Fin (13 / 60), NaN, Fin (- 5 / 12)]
   \<and> map_sum id (\<lambda>v. map (\<lambda>k. v ! k) [0, 1, 2, 4, 5, 6, 7, 8])
         (create_engineered_features ten_hour_window)
       = Inr [Fin 7, Fin 2, Fin 0.46, Fin (211 / 300), Fin 0.46, Fin (13 / 60),
              Fin (211000000 / 138000300), Fin (- 5 / 12)]
   \<and> create_time_based_features [[]] = Inl ValueError
   \<and> create_engineered_features [] = Inr (replicate 9 (Fin 0))"
proof (intro conjI)
  show "create_time_based_features [ten_hour_window]
          \<noteq> map_sum id (\<lambda>v. [v]) (create_engineered_features ten_hour_window)"
  proof
    assume eq: "create_time_based_features [ten_hour_window]
                  = map_sum id (\<lambda>v. [v]) (create_engineered_features ten_hour_window)"
    obtain v where v: "create_engineered_features ten_hour_window = Inr v"
      using create_engineered_features_returns by blast
    from training_on_ten_hours serving_on_ten_hours show False
      unfolding eq v by simp
  qed
next
  show "create_time_based_features [[]] = Inl ValueError"
    by (simp add: training_window window_features_empty)
next
  show "create_engineered_features [] = Inr (replicate 9 (Fin 0))"
    by (simp add: serving_window np_zeros_def)
qed (rule training_on_ten_hours serving_on_ten_hours)+

section \<open>Properties of the chronotype inference\<close>

lemma loaded_flag_needs_classifier_and_scaler:
  "models_loaded (new_predictor store) \<Longrightarrow>
     classifier_model (new_predictor store) \<noteq> None
     \<and> classifier_scaler (new_predictor store) \<noteq> None"
  by (auto simp: new_predictor_def load_models_def Let_def split: if_splits sum.splits)

text \<open>
  Claim C9. When the models are not loaded (the predictor's \<open>models_loaded\<close> flag is
  off, which is the case after construction whenever the classifier or the scaler could
  not be loaded), \<open>predict_chronotype\<close> returns, for every activity pattern, the structured
  result with \<open>success = False\<close> and the default label 1 (Intermediate); the rate endpoint
  then still produces a rate, with label 1. An exception raised while predicting gives a
  result with \<open>success = False\<close> and label 1 as well.
\<close>

theorem predict_chronotype_models_not_loaded:
  "(\<not> models_loaded self \<longrightarrow>
      predict_chronotype self activity_pattern =
        \<lparr> cr_error = Some (Message ''Models not loaded''), cr_chronotype = 1,
          cr_chronotype_name = None, cr_confidence = None, cr_success = Some False \<rparr>)
   \<and> (classifier_model (new_predictor store) = None
        \<or> classifier_scaler (new_predictor store) = None \<longrightarrow>
        cr_success (predict_chronotype (new_predictor store) activity_pattern) = Some False
        \<and> cr_chronotype (predict_chronotype (new_predictor store) activity_pattern) = 1
        \<and> map_sum id chronotype
              (calculate_circadian_rate (new_predictor store) base_rate' current_hour'
                 activity_pattern) = Inr 1)
   \<and> (predict_try self activity_pattern = Inl e \<longrightarrow>
        cr_success (predict_chronotype self activity_pattern) = Some False
        \<and> cr_chronotype (predict_chronotype self activity_pattern) = 1)"
proof -
  have raised: "cr_success (predict_chronotype self activity_pattern) = Some False
        \<and> cr_chronotype (predict_chronotype self activity_pattern) = 1"
    if "predict_try self activity_pattern = Inl e"
    using that by (simp add: predict_chronotype_def failure_result_def)
  have flag_off: "predict_chronotype self activity_pattern =
        \<lparr> cr_error = Some (Message ''Models not loaded''), cr_chronotype = 1,
          cr_chronotype_name = None, cr_confidence = None, cr_success = Some False \<rparr>"
    if "\<not> models_loaded self"
    using that by (simp add: predict_chronotype_def failure_result_def)
  have "cr_success (predict_chronotype (new_predictor store) activity_pattern) = Some False
        \<and> cr_chronotype (predict_chronotype (new_predictor store) activity_pattern) = 1
        \<and> map_sum id chronotype
              (calculate_circadian_rate (new_predictor store) base_rate' current_hour'
                 activity_pattern) = Inr 1"
    if "classifier_model (new_predictor store) = None
          \<or> classifier_scaler (new_predictor store) = None"
  proof -
    from that have "\<not> models_loaded (new_predictor store)"
      using loaded_flag_needs_classifier_and_scaler by blast
    then show ?thesis
      by (simp add: predict_chronotype_def failure_result_def calculate_circadian_rate_def
            circadian_rate_def Let_def)
  qed
  with flag_off raised show ?thesis by blast
qed

theorem predict_chronotype_models_not_loaded_witness:
  "\<not> models_loaded (new_predictor empty_store)
   \<and> classifier_model (new_predictor empty_store) = None
   \<and> cr_success (predict_chronotype (new_predictor empty_store) ten_hour_window) = Some False
   \<and> cr_chronotype (predict_chronotype (new_predictor empty_store) ten_hour_window) = 1
   \<and> map_sum id adjusted_rate
         (calculate_circadian_rate (new_predictor empty_store) 10000 3 ten_hour_window)
       = Inr 8500"
  using predict_chronotype_models_not_loaded
          [of "new_predictor empty_store" ten_hour_window empty_store 10000 3]
  by (simp add: new_predictor_def load_models_def empty_store_def Let_def
        calculate_circadian_rate_def circadian_rate_def dict_get_def hourly_multipliers_def
        chronotype_adjustments_def)

section \<open>Properties of the behavioural perturbations\<close>

lemma in_band_clip_scaled:
  "in_band a \<Longrightarrow> in_band (np_clip (np_add (np_mul a (Fin c)) (Fin d)) 0.05 1.0)"
  by (cases a) (auto simp: in_band_def)

lemma in_band_clip_mul:
  "in_band a \<Longrightarrow> in_band (np_clip (np_mul a (Fin c)) 0.05 1.0)"
  by (cases a) (auto simp: in_band_def)

lemma band_array_update:
  "band_array n a \<Longrightarrow> in_band v \<Longrightarrow> band_array n (a[i := v])"
  unfolding band_array_def
  by (auto dest: subsetD [OF set_update_subset_insert])

lemma band_array_nth: "band_array n a \<Longrightarrow> i < n \<Longrightarrow> in_band (a ! i)"
  by (simp add: band_array_def)

lemma fold_invariant:
  "(\<And>x s. x \<in> set xs \<Longrightarrow> P s \<Longrightarrow> P (f x s)) \<Longrightarrow> P s \<Longrightarrow> P (fold f xs s)"
  by (induction xs arbitrary: s) simp_all

lemma for_loop_invariant:
  "(\<And>x s. x \<in> set xs \<Longrightarrow> P s \<Longrightarrow> \<exists>s'. body x s = Inr s' \<and> P s') \<Longrightarrow> P s
   \<Longrightarrow> \<exists>s'. for_loop body xs s = Inr s' \<and> P s'"
proof (induction xs arbitrary: s)
  case Nil
  then show ?case by simp
next
  case (Cons x xs)
  from Cons.prems obtain s1 where s1: "body x s = Inr s1" "P s1" by fastforce
  from Cons.IH [of s1] Cons.prems(1) s1(2)
  obtain s' where "for_loop body xs s1 = Inr s'" "P s'" by fastforce
  with s1 show ?case by simp
qed

lemma stress_hour_band:
  assumes "band_array n (fst st)" and "i < n"
  shows "band_array n (fst (stress_hour stress_level noise i st))"
proof -
  obtain activity k where st: "st = (activity, k)" by (cases st)
  from assms st have "in_band (activity ! i)" by (simp add: band_array_nth)
  then have "in_band (np_clip (np_add (np_mul (activity ! i) (Fin (1 - stress_level)))
                (Fin (noise k))) 0.05 1.0)"
    by (rule in_band_clip_scaled)
  with assms st show ?thesis
    by (simp add: stress_hour_def Let_def band_array_update)
qed

lemma stress_day_loop_band:
  assumes "band_array n (fst st)"
  shows "band_array n (fst (stress_day_loop stress_level noise stress_day st))"
proof -
  have len: "length (fst st) = n" using assms by (simp add: band_array_def)
  show ?thesis unfolding stress_day_loop_def Let_def
    by (rule fold_invariant [where P = "\<lambda>s. band_array n (fst s)"])
       (auto simp: len intro: stress_hour_band assms)
qed

lemma py_int_nonneg: "0 \<le> x \<Longrightarrow> 0 \<le> py_int x"
  by (simp add: py_int_def)

lemma stress_choice_returns:
  assumes "0.05 \<le> f" and "f < 0.10"
  shows "np_random_choice d (py_int (f * real d)) outcome = Inr outcome"
proof -
  have nonneg: "0 \<le> f * real d" using assms by simp
  have "f * real d \<le> real d" using assms by (simp add: mult_left_le_one_le)
  then have "\<lfloor>f * real d\<rfloor> \<le> int d" by linarith
  moreover have "0 \<le> \<lfloor>f * real d\<rfloor>" using nonneg by simp
  moreover have "0 < d \<or> \<lfloor>f * real d\<rfloor> = 0" by (cases d) simp_all
  ultimately show ?thesis using nonneg
    by (auto simp: np_random_choice_def py_int_def)
qed

lemma add_stress_patterns_band:
  assumes band: "band_array n (activity_level user)"
    and chrono: "ud_chronotype user \<in> {''early'', ''intermediate'', ''late''}"
    and frac: "0.05 \<le> stress_fraction draws" "stress_fraction draws < 0.10"
  shows "\<exists>user' a. add_stress_patterns draws user = Inr user'
           \<and> activity_level_with_stress user' = Some a \<and> band_array n a"
proof -
  have "dom stress_factors = {''early'', ''intermediate'', ''late''}"
    by (auto simp: stress_factors_def dom_map_of_conv_image_fst)
  with chrono have "\<exists>lvl. stress_factors (ud_chronotype user) = Some lvl"
    by (metis domD)
  then obtain stress_level where lvl: "stress_factors (ud_chronotype user) = Some stress_level"
    by blast
  let ?st = "fold (stress_day_loop stress_level (stress_noise draws))
               (stress_days_outcome draws) (activity_level user, 0)"
  have "band_array n (fst ?st)"
    by (rule fold_invariant [where P = "\<lambda>s. band_array n (fst s)"])
       (simp_all add: stress_day_loop_band band)
  then show ?thesis
    by (auto simp: add_stress_patterns_def Let_def lvl stress_choice_returns [OF frac]
          split: prod.splits)
qed

lemma social_jetlag_step_band:
  assumes band: "band_array n (fst st)"
    and draw: "\<forall>k. 1 \<le> shift_draw k \<and> shift_draw k < 3"
  shows "\<exists>st'. social_jetlag_step shift_draw ih st = Inr st' \<and> band_array n (fst st')"
proof -
  obtain i hour where ih: "ih = (i, hour)" by (cases ih)
  obtain activity k where st: "st = (activity, k)" by (cases st)
  have len: "length activity = n" and band': "band_array n activity"
    using band st by (simp_all add: band_array_def)
  from draw have "1 \<le> shift_draw k" by blast
  then have "0 \<le> shift_draw k" by linarith
  then have ps: "0 \<le> py_int (shift_draw k)" by (rule py_int_nonneg)
  show ?thesis
  proof (cases "int i + py_int (shift_draw k) < int n")
    case True
    then have j: "nat (int i + py_int (shift_draw k)) < n" and i: "i < n" using ps by auto
    have get: "np_get activity (int i + py_int (shift_draw k))
                 = Inr (activity ! nat (int i + py_int (shift_draw k)))"
      using True ps by (simp add: np_get_def len Let_def)
    have set: "np_set activity (int i) v = Inr (activity[i := v])" for v
      using i by (simp add: np_set_def len Let_def)
    have "in_band (activity ! nat (int i + py_int (shift_draw k)))"
      using band' j by (rule band_array_nth)
    then have "band_array n (activity[i := activity ! nat (int i + py_int (shift_draw k))])"
      using band' by (simp add: band_array_update)
    then show ?thesis using True band'
      by (simp add: social_jetlag_step_def ih st len get set Let_def)
  next
    case False
    then show ?thesis using band'
      by (simp add: social_jetlag_step_def ih st len Let_def)
  qed
qed

lemma add_social_jetlag_band:
  assumes band: "band_array n (activity_level user)"
    and draw: "\<forall>k. 1 \<le> shift_draw k \<and> shift_draw k < 3"
  shows "\<exists>user' a. add_social_jetlag shift_draw user = Inr user'
           \<and> activity_level_with_social_jetlag user' = Some a \<and> band_array n a"
proof -
  have "\<exists>st'. for_loop (social_jetlag_step shift_draw) (List.enumerate 0 (time_hours user))
                 (activity_level user, 0) = Inr st' \<and> band_array n (fst st')"
  proof (rule for_loop_invariant [where P = "\<lambda>s. band_array n (fst s)"])
    fix x and s :: "npfloat list \<times> nat"
    assume "band_array n (fst s)"
    then show "\<exists>s'. social_jetlag_step shift_draw x s = Inr s' \<and> band_array n (fst s')"
      using draw by (rule social_jetlag_step_band)
  qed (simp add: band)
  then obtain a k where "for_loop (social_jetlag_step shift_draw)
      (List.enumerate 0 (time_hours user)) (activity_level user, 0) = Inr (a, k)"
      "band_array n a"
    by auto
  then show ?thesis by (simp add: add_social_jetlag_def Let_def)
qed

lemma seasonal_step_band:
  assumes band: "band_array n activity" and i: "fst ih < n"
  shows "\<exists>activity'. seasonal_step strength ih activity = Inr activity' \<and> band_array n activity'"
proof -
  obtain i hour where ih: "ih = (i, hour)" by (cases ih)
  have len: "length activity = n" using band by (simp add: band_array_def)
  have lt: "i < n" using i ih by simp
  have get: "np_get activity (int i) = Inr (activity ! i)"
    using lt by (simp add: np_get_def len Let_def)
  have set: "np_set activity (int i) v = Inr (activity[i := v])" for v
    using lt by (simp add: np_set_def len Let_def)
  have "in_band (activity ! i)" using band lt by (rule band_array_nth)
  then have "in_band (np_clip (np_mul (activity ! i) (Fin c)) 0.05 1.0)" for c
    by (rule in_band_clip_mul)
  then show ?thesis using band
    by (simp add: seasonal_step_def ih get set Let_def band_array_update)
qed

lemma add_seasonal_variation_band:
  assumes band: "band_array n (activity_level user)"
    and chrono: "ud_chronotype user \<in> {''early'', ''intermediate'', ''late''}"
    and len: "length (time_hours user) = n"
  shows "\<exists>user' a. add_seasonal_variation user = Inr user'
           \<and> activity_level_with_seasonal user' = Some a \<and> band_array n a"
proof -
  have "dom seasonal_strengths = {''early'', ''intermediate'', ''late''}"
    by (auto simp: seasonal_strengths_def dom_map_of_conv_image_fst)
  with chrono have "\<exists>lvl. seasonal_strengths (ud_chronotype user) = Some lvl"
    by (metis domD)
  then obtain strength where str: "seasonal_strengths (ud_chronotype user) = Some strength"
    by blast
  have "\<exists>a. for_loop (seasonal_step strength) (List.enumerate 0 (time_hours user))
               (activity_level user) = Inr a \<and> band_array n a"
  proof (rule for_loop_invariant [where P = "band_array n"])
    fix x s
    assume "x \<in> set (List.enumerate 0 (time_hours user))" and "band_array n s"
    then show "\<exists>s'. seasonal_step strength x s = Inr s' \<and> band_array n s'"
      using len by (intro seasonal_step_band) (auto simp: in_set_enumerate_eq)
  qed (rule band)
  then show ?thesis by (auto simp: add_seasonal_variation_def Let_def str)
qed

lemma jetlag_hour_band:
  assumes "band_array n (fst st)" and "i < n"
  shows "band_array n (fst (jetlag_hour shift_strength normal i st))"
proof -
  obtain activity k where st: "st = (activity, k)" by (cases st)
  from assms st have "in_band (activity ! i)" by (simp add: band_array_nth)
  then have "in_band (np_clip (np_add (np_mul (activity ! i) (Fin (1 - shift_strength * 0.3)))
                (Fin ((shift_strength * 0.2) * normal k))) 0.05 1.0)"
    by (rule in_band_clip_scaled)
  with assms st show ?thesis
    by (simp add: jetlag_hour_def Let_def band_array_update)
qed

lemma recovery_day_loop_band:
  assumes "band_array n (fst st)"
  shows "band_array n (fst (recovery_day_loop total_days trip_day tz rec normal recovery_day st))"
proof (cases "trip_day + recovery_day < total_days")
  case True
  have len: "length (fst st) = n" using assms by (simp add: band_array_def)
  have "band_array n (fst (fold (jetlag_hour ss normal) [a..<min b (length (fst st))] st))"
    for ss a b
    by (rule fold_invariant [where P = "\<lambda>s. band_array n (fst s)"])
       (auto simp: len intro: jetlag_hour_band assms)
  then show ?thesis using True by (simp add: recovery_day_loop_def Let_def)
next
  case False
  then show ?thesis using assms by (simp add: recovery_day_loop_def Let_def)
qed

lemma trip_loop_band:
  assumes "band_array n (fst (fst st))"
  shows "band_array n (fst (fst (trip_loop draws total_days jt st)))"
proof -
  obtain j trip_day where jt: "jt = (j, trip_day)" by (cases jt)
  obtain ak ev where st: "st = (ak, ev)" by (cases st)
  have "band_array n (fst (fold (recovery_day_loop total_days trip_day tz rec normal) ds ak))"
    for tz rec normal ds
    by (rule fold_invariant [where P = "\<lambda>s. band_array n (fst s)"])
       (use assms st in \<open>simp_all add: recovery_day_loop_band\<close>)
  then show ?thesis by (simp add: trip_loop_def jt st Let_def)
qed

lemma add_travel_jetlag_band:
  assumes band: "band_array n (activity_level user)"
    and ret: "add_travel_jetlag draws user n_trips = Inr user'"
  shows "\<exists>a. activity_level_with_jetlag user' = Some a \<and> band_array n a"
proof (cases "n_trips > 0 \<and> length (time_hours user) div 24 > 7")
  case False
  with ret band show ?thesis by (auto simp: add_travel_jetlag_def Let_def)
next
  case True
  let ?td = "length (time_hours user) div 24"
  have inv: "band_array n (fst (fst (fold (trip_loop draws ?td) (List.enumerate 0 trip_days)
                 ((activity_level user, 0), []))))" for trip_days
    by (rule fold_invariant [where P = "\<lambda>s. band_array n (fst (fst s))"])
       (simp_all add: trip_loop_band band)
  show ?thesis
  proof (cases "np_random_choice (length [7..<?td - 7]) (min n_trips (int (?td div 10)))
                  (trip_days_outcome draws)")
    case (Inl e)
    with ret True show ?thesis by (simp add: add_travel_jetlag_def Let_def)
  next
    case (Inr trip_days)
    obtain a k ev where f: "fold (trip_loop draws ?td) (List.enumerate 0 trip_days)
                  ((activity_level user, 0), []) = ((a, k), ev)"
      by (metis prod.exhaust)
    from ret True Inr f have "activity_level_with_jetlag user' = Some a"
      by (auto simp: add_travel_jetlag_def Let_def)
    moreover from inv [of trip_days] f have "band_array n a" by simp
    ultimately show ?thesis by blast
  qed
qed

lemma add_travel_jetlag_returns:
  assumes "n_trips \<le> 0 \<or> length (time_hours user) div 24 < 10
           \<or> 14 < length (time_hours user) div 24"
  shows "\<exists>user'. add_travel_jetlag draws user n_trips = Inr user'"
proof (cases "n_trips > 0 \<and> length (time_hours user) div 24 > 7")
  case False
  then show ?thesis by (auto simp: add_travel_jetlag_def Let_def)
next
  case True
  let ?td = "length (time_hours user) div 24"
  have "np_random_choice (length [7..<?td - 7]) (min n_trips (int (?td div 10))) outcome
          = Inr outcome" for outcome :: "nat list"
    using True assms by (auto simp: np_random_choice_def min_def)
  then show ?thesis using True
    by (auto simp: add_travel_jetlag_def Let_def split: prod.splits)
qed

lemma add_travel_jetlag_raises:
  assumes "0 < n_trips" and "10 \<le> length (time_hours user) div 24"
    and "length (time_hours user) div 24 \<le> 14"
  shows "add_travel_jetlag draws user n_trips = Inl ValueError"
proof -
  let ?td = "length (time_hours user) div 24"
  have "np_random_choice (length [7..<?td - 7]) (min n_trips (int (?td div 10))) outcome
          = Inl ValueError" for outcome :: "nat list"
    using assms by (auto simp: np_random_choice_def min_def)
  then show ?thesis using assms
    by (simp add: add_travel_jetlag_def Let_def)
qed

lemma add_travel_jetlag_no_trip:
  assumes "n_trips \<le> 0 \<or> length (time_hours user) div 24 \<le> 7"
  shows "add_travel_jetlag draws user n_trips =
           Inr (user\<lparr>travel_events := Some [],
                     activity_level_with_jetlag := Some (activity_level user)\<rparr>)"
  using assms by (auto simp: add_travel_jetlag_def Let_def)

text \<open>
  Applied to a base signal whose samples all lie in \<open>[0.05, 1.0]\<close>, social jetlag, stress
  injection and seasonal modulation always return (for a subject of one of the three
  classes, hour indices paired with the samples, and random draws in the ranges the code
  asks for), and their derived signal has the length of the base signal and all its samples
  in \<open>[0.05, 1.0]\<close>. Travel jetlag keeps length and band when it returns, and it returns
  unless a trip is requested for a subject with 10 to 14 days of data.
\<close>

lemma perturbations_band_when_returning:
  assumes "\<forall>x \<in> set (activity_level user). in_band x"
    and "length (time_hours user) = length (activity_level user)"
    and "ud_chronotype user \<in> {''early'', ''intermediate'', ''late''}"
    and "\<forall>k. 1 \<le> shift_draw k \<and> shift_draw k < 3"
    and "0.05 \<le> stress_fraction sdraws \<and> stress_fraction sdraws < 0.10"
  shows "(\<exists>user' a. add_social_jetlag shift_draw user = Inr user'
            \<and> activity_level_with_social_jetlag user' = Some a
            \<and> length a = length (activity_level user) \<and> (\<forall>x \<in> set a. in_band x))
       \<and> (\<exists>user' a. add_stress_patterns sdraws user = Inr user'
            \<and> activity_level_with_stress user' = Some a
            \<and> length a = length (activity_level user) \<and> (\<forall>x \<in> set a. in_band x))
       \<and> (\<exists>user' a. add_seasonal_variation user = Inr user'
            \<and> activity_level_with_seasonal user' = Some a
            \<and> length a = length (activity_level user) \<and> (\<forall>x \<in> set a. in_band x))
       \<and> (\<forall>user'. add_travel_jetlag tdraws user n_trips = Inr user' \<longrightarrow>
            (\<exists>a. activity_level_with_jetlag user' = Some a
               \<and> length a = length (activity_level user) \<and> (\<forall>x \<in> set a. in_band x)))
       \<and> (n_trips \<le> 0 \<or> length (time_hours user) div 24 < 10
             \<or> 14 < length (time_hours user) div 24 \<longrightarrow>
            (\<exists>user'. add_travel_jetlag tdraws user n_trips = Inr user'))"
proof -
  let ?n = "length (activity_level user)"
  have band: "band_array ?n (activity_level user)"
    using assms(1) by (simp add: band_array_def)
  have social: "\<exists>user' a. add_social_jetlag shift_draw user = Inr user'
            \<and> activity_level_with_social_jetlag user' = Some a
            \<and> length a = ?n \<and> (\<forall>x \<in> set a. in_band x)"
    using add_social_jetlag_band [OF band assms(4)] by (simp add: band_array_def)
  have stress: "\<exists>user' a. add_stress_patterns sdraws user = Inr user'
            \<and> activity_level_with_stress user' = Some a
            \<and> length a = ?n \<and> (\<forall>x \<in> set a. in_band x)"
    using add_stress_patterns_band [OF band assms(3), of sdraws] assms(5)
    by (simp add: band_array_def)
  have seasonal: "\<exists>user' a. add_seasonal_variation user = Inr user'
            \<and> activity_level_with_seasonal user' = Some a
            \<and> length a = ?n \<and> (\<forall>x \<in> set a. in_band x)"
    using add_seasonal_variation_band [OF band assms(3) assms(2)] by (simp add: band_array_def)
  have travel: "\<exists>a. activity_level_with_jetlag user' = Some a
               \<and> length a = ?n \<and> (\<forall>x \<in> set a. in_band x)"
    if "add_travel_jetlag tdraws user n_trips = Inr user'" for user'
    using add_travel_jetlag_band [OF band that] by (simp add: band_array_def)
  have returns: "\<exists>user'. add_travel_jetlag tdraws user n_trips = Inr user'"
    if "n_trips \<le> 0 \<or> length (time_hours user) div 24 < 10
             \<or> 14 < length (time_hours user) div 24"
    using that by (rule add_travel_jetlag_returns)
  show ?thesis
    by (intro conjI allI impI social stress seasonal travel returns)
qed

text \<open>
  Claim C5 says that each of the four transforms, applied to any base signal with all
  samples in \<open>[0.05, 1.0]\<close>, gives a derived signal of the same length with all samples in
  \<open>[0.05, 1.0]\<close>. For a subject with 288 hourly samples (12 days), all of them 0.5, social
  jetlag, stress injection and seasonal modulation do; travel jetlag with one requested
  trip gives no derived signal at all: the guard \<open>total_days > 7\<close> lets the call through,
  \<open>range(7, total_days - 7) = range(7, 5)\<close> is empty, and \<open>np.random.choice\<close> raises
  \<open>ValueError\<close> before \<open>activity_level_with_jetlag\<close> is assigned, whatever the random
  source. This is the defect of claim C6.
\<close>

theorem travel_jetlag_leaves_no_derived_signal:
  "list_all in_band (activity_level (sample_user 288))
   \<and> length (activity_level (sample_user 288)) = 288
   \<and> length (time_hours (sample_user 288)) div 24 = 12
   \<and> (\<exists>user' a. add_social_jetlag (\<lambda>k. 2) (sample_user 288) = Inr user'
         \<and> activity_level_with_social_jetlag user' = Some a
         \<and> length a = 288 \<and> list_all in_band a)
   \<and> (\<exists>user' a. add_stress_patterns sample_stress_draws (sample_user 288) = Inr user'
         \<and> activity_level_with_stress user' = Some a
         \<and> length a = 288 \<and> list_all in_band a)
   \<and> (\<exists>user' a. add_seasonal_variation (sample_user 288) = Inr user'
         \<and> activity_level_with_seasonal user' = Some a
         \<and> length a = 288 \<and> list_all in_band a)
   \<and> add_travel_jetlag tdraws (sample_user 288) 1 = Inl ValueError"
proof -
  have "add_travel_jetlag tdraws (sample_user 288) 1 = Inl ValueError"
    by (rule add_travel_jetlag_raises) (simp_all add: sample_user_def)
  then show ?thesis
    using perturbations_band_when_returning
          [of "sample_user 288" "\<lambda>k. 2" sample_stress_draws tdraws 1]
    by (simp add: sample_user_def sample_stress_draws_def in_band_def list_all_iff)
qed

text \<open>
  Claim C6 asks that \<open>add_travel_jetlag\<close> never raises and returns the base signal with
  an empty event log when \<open>range(7, total_days - 7)\<close> is empty. With at most 7 days, or
  without a requested trip, it does (\<open>add_travel_jetlag_no_trip\<close>). For a subject with
  10 days of data and the default two trips the guard \<open>total_days > 7\<close> lets the call
  through, the range is empty, one trip day is requested from it, and
  \<open>np.random.choice\<close> raises \<open>ValueError\<close>, whatever the random source.
\<close>

theorem travel_jetlag_raises_on_ten_days:
  "length (time_hours (sample_user 240)) div 24 = 10
   \<and> [7..<length (time_hours (sample_user 240)) div 24 - 7] = []
   \<and> add_travel_jetlag draws (sample_user 240) 2 = Inl ValueError"
  by (simp add: add_travel_jetlag_raises sample_user_def)

section \<open>Properties of the oscillator and of the population\<close>

lemma grid_point_in_hour:
  fixes T h :: int
  assumes "1 \<le> T" and "0 \<le> h" and "h < T"
  shows "\<exists>k < nat (T * 4).
           real_of_int h \<le> real k * (real_of_int T / real_of_int (T * 4 - 1))
           \<and> real k * (real_of_int T / real_of_int (T * 4 - 1)) < real_of_int h + 1"
proof -
  define s where "s = real_of_int T / real_of_int (T * 4 - 1)"
  have den: "0 < real_of_int (T * 4 - 1)" using assms(1) by simp
  have s_pos: "0 < s" using assms(1) den by (simp add: s_def)
  have "real_of_int T < real_of_int (T * 4 - 1)" using assms(1) by simp
  then have s_lt: "s < 1" using den by (simp add: s_def)
  have top: "real_of_int (T * 4 - 1) * s = real_of_int T"
    using den by (simp add: s_def)
  define k where "k = nat \<lceil>real_of_int h / s\<rceil>"
  have q: "0 \<le> real_of_int h / s" using assms(2) s_pos by simp
  then have kc: "real k = real_of_int \<lceil>real_of_int h / s\<rceil>"
    by (simp add: k_def)
  have lo: "real_of_int h / s \<le> real k" unfolding kc by (rule le_of_int_ceiling)
  have hi: "real k < real_of_int h / s + 1" unfolding kc by linarith
  from lo s_pos have ge: "real_of_int h \<le> real k * s"
    by (simp add: pos_divide_le_eq)
  from hi s_pos have "real k * s < (real_of_int h / s + 1) * s"
    by (simp only: mult_less_cancel_right_pos)
  also have "\<dots> = real_of_int h + s" using s_pos by (simp add: algebra_simps)
  finally have lt: "real k * s < real_of_int h + s" .
  with s_lt have lt1: "real k * s < real_of_int h + 1" by linarith
  have "real_of_int h + 1 \<le> real_of_int T" using assms(3) by linarith
  with lt s_lt have "real k * s < real_of_int (T * 4 - 1) * s" unfolding top by linarith
  with s_pos have "real k < real_of_int (T * 4 - 1)"
    by (simp only: mult_less_cancel_right_pos)
  then have "int k < T * 4 - 1" by linarith
  then have "k < nat (T * 4)" by linarith
  with ge lt1 show ?thesis unfolding s_def by blast
qed

lemma hour_has_grid_point:
  fixes T h :: int
  assumes "1 \<le> T" and "0 \<le> h" and "h < T"
    and t: "np_linspace 0 (real_of_int T) (T * 4) = Inr t"
  shows "True \<in> set (map (\<lambda>x. real_of_int h \<le> x \<and> x < real_of_int h + 1) t)"
proof -
  from t assms(1) have t_def:
    "t = map (\<lambda>k. real k * (real_of_int T / real_of_int (T * 4 - 1))) [0..<nat (T * 4)]"
    by (auto simp: np_linspace_def split: if_splits)
  from grid_point_in_hour [OF assms(1-3)] obtain k where
    "k < nat (T * 4)"
    "real_of_int h \<le> real k * (real_of_int T / real_of_int (T * 4 - 1))"
    "real k * (real_of_int T / real_of_int (T * 4 - 1)) < real_of_int h + 1"
    by blast
  then show ?thesis unfolding t_def by (auto simp: image_iff intro!: bexI [of _ k])
qed

lemma hour_loop_keeps_every_hour:
  assumes "\<forall>h \<in> set hs. True \<in> set (map (\<lambda>x. real_of_int h \<le> x \<and> x < real_of_int h + 1) t)"
    and "length t = length a"
  shows "\<exists>acts. for_loop (hour_step t a) hs (ts, as) = Inr (ts @ hs, as @ acts)
                \<and> length acts = length hs"
  using assms(1)
proof (induction hs arbitrary: ts as)
  case Nil
  then show ?case by simp
next
  case (Cons h hs)
  let ?m = "np_mean (map snd (filter fst
              (zip (map (\<lambda>x. real_of_int h \<le> x \<and> x < real_of_int h + 1) t) a)))"
  have step: "hour_step t a h (ts, as) = Inr (ts @ [h], as @ [?m])"
    using Cons.prems assms(2) by (simp add: hour_step_def Let_def)
  from Cons.IH [of "ts @ [h]" "as @ [?m]"] Cons.prems
  obtain acts where "for_loop (hour_step t a) hs (ts @ [h], as @ [?m])
                       = Inr ((ts @ [h]) @ hs, (as @ [?m]) @ acts)" "length acts = length hs"
    by auto
  with step show ?case by (intro exI [of _ "?m # acts"]) simp
qed

lemma np_min_nonempty: "xs \<noteq> [] \<Longrightarrow> \<exists>v. np_min xs = Inr v"
  using np_argmin_nonempty [of xs] by (auto simp: np_min_def)

lemma np_max_nonempty: "xs \<noteq> [] \<Longrightarrow> \<exists>v. np_max xs = Inr v"
  using np_argmax_nonempty [of xs] by (auto simp: np_max_def)

lemma oscillation_has_every_hour:
  assumes days: "1 \<le> days'" and hpd: "1 \<le> hours_per_day"
    and solver: "integrator_returns odeint"
    and scale: "0 \<le> gen_noise_level self"
  shows "\<exists>r. generate_circadian_oscillation odeint normal self days' hours_per_day = Inr r
           \<and> time_hours r = map int [0..<nat (days' * hours_per_day)]
           \<and> length (activity_level r) = nat (days' * hours_per_day)"
proof -
  define T where "T = days' * hours_per_day"
  have "1 * 1 \<le> days' * hours_per_day"
    using days hpd by (intro mult_mono) simp_all
  then have T1: "1 \<le> T" by (simp add: T_def)
  obtain t where t: "np_linspace 0 (real_of_int T) (T * 4) = Inr t"
    and t_len: "length t = nat (T * 4)"
    using T1 by (simp add: np_linspace_def)
  have t_ne: "t \<noteq> []" using t_len T1 by auto
  from solver t_ne obtain solution where
    sol: "odeint self t = Some solution" and sol_len: "length solution = length t"
    unfolding integrator_returns_def by blast
  have raw_ne: "map fst solution \<noteq> []" using sol_len t_ne by auto
  obtain lowest where lo: "np_min (map fst solution) = Inr lowest"
    using np_min_nonempty [OF raw_ne] by blast
  obtain highest where hi: "np_max (map fst solution) = Inr highest"
    using np_max_nonempty [OF raw_ne] by blast
  have every: "\<forall>h \<in> set (map int [0..<nat T]).
          True \<in> set (map (\<lambda>x. real_of_int h \<le> x \<and> x < real_of_int h + 1) t)"
  proof
    fix h assume "h \<in> set (map int [0..<nat T])"
    then have "0 \<le> h" "h < T" by auto
    with T1 t show "True \<in> set (map (\<lambda>x. real_of_int h \<le> x \<and> x < real_of_int h + 1) t)"
      by (intro hour_has_grid_point)
  qed
  have no_error: False
    if "for_loop (hour_step t a) (map int [0..<nat T]) ([], []) = Inl e"
      and "length a = length solution" for a e
    using hour_loop_keeps_every_hour [OF every, of a "[]" "[]"] that sol_len by auto
  have result: "ts = map int [0..<nat T] \<and> length acts = nat T"
    if "for_loop (hour_step t a) (map int [0..<nat T]) ([], []) = Inr (ts, acts)"
      and "length a = length solution" for a ts acts
    using hour_loop_keeps_every_hour [OF every, of a "[]" "[]"] that sol_len by auto
  show ?thesis
    using scale t sol lo hi
    by (auto simp: generate_circadian_oscillation_def Let_def T_def [symmetric]
          split: sum.splits prod.splits dest!: no_error result)
qed

lemma uniform_lower: "0 \<le> u \<Longrightarrow> low \<le> high \<Longrightarrow> low \<le> np_random_uniform low high u"
  by (simp add: np_random_uniform_def)

lemma sampler_returns_uniform:
  assumes "0 < lo" and "lo \<le> hi" and "0 \<le> lo'" and "lo' \<le> hi'"
  shows "sampler_returns
           (\<lambda>d. new_generator (f d) (np_random_uniform lo hi (u_tau d))
                  (np_random_uniform lo' hi' (u_noise d)))"
  unfolding sampler_returns_def
proof (intro allI impI)
  fix d assume d: "unit_draws d"
  then have "lo \<le> np_random_uniform lo hi (u_tau d)"
    and n: "lo' \<le> np_random_uniform lo' hi' (u_noise d)"
    using assms by (simp_all add: unit_draws_def uniform_lower)
  with assms have "np_random_uniform lo hi (u_tau d) \<noteq> 0"
    and "0 \<le> np_random_uniform lo' hi' (u_noise d)"
    by linarith+
  then show "\<exists>g. new_generator (f d) (np_random_uniform lo hi (u_tau d))
                   (np_random_uniform lo' hi' (u_noise d)) = Inr g
               \<and> 0 \<le> gen_noise_level g"
    by (simp add: new_generator_def)
qed

lemma samplers_return:
  "sampler_returns generate_early_chronotype"
  "sampler_returns generate_late_chronotype"
  "sampler_returns generate_intermediate_chronotype"
proof -
  have early: "generate_early_chronotype =
          (\<lambda>d. new_generator (np_random_uniform 0.8 1.5 (u_mu d))
                 (np_random_uniform 22.5 23.8 (u_tau d))
                 (np_random_uniform 0.05 0.12 (u_noise d)))"
    by (simp add: fun_eq_iff generate_early_chronotype_def Let_def)
  show "sampler_returns generate_early_chronotype"
    unfolding early by (rule sampler_returns_uniform; simp)
  have late: "generate_late_chronotype =
          (\<lambda>d. new_generator (np_random_uniform 1.2 2.5 (u_mu d))
                 (np_random_uniform 24.2 25.5 (u_tau d))
                 (np_random_uniform 0.08 0.18 (u_noise d)))"
    by (simp add: fun_eq_iff generate_late_chronotype_def Let_def)
  show "sampler_returns generate_late_chronotype"
    unfolding late by (rule sampler_returns_uniform; simp)
  have intermediate: "generate_intermediate_chronotype =
          (\<lambda>d. new_generator (np_random_uniform 0.9 1.8 (u_mu d))
                 (np_random_uniform 23.8 24.2 (u_tau d))
                 (np_random_uniform 0.06 0.15 (u_noise d)))"
    by (simp add: fun_eq_iff generate_intermediate_chronotype_def Let_def)
  show "sampler_returns generate_intermediate_chronotype"
    unfolding intermediate by (rule sampler_returns_uniform; simp)
qed

lemma update_fresh_key:
  "k \<notin> fst ` set al \<Longrightarrow> AList.update k v al = al @ [(k, v)]"
  by (induction al) auto

lemma class_block_Cons:
  assumes "class_block c (Suc uid) n block" and "ud_chronotype u = c"
  shows "class_block c uid (Suc n) ((uid, u) # block)"
proof -
  have "[uid..<uid + Suc n] = uid # [Suc uid..<Suc uid + n]"
    by (simp add: upt_conv_Cons)
  with assms show ?thesis by (simp add: class_block_def del: upt_Suc)
qed

lemma class_loop_appends:
  assumes days: "1 \<le> days'" and solver: "integrator_returns odeint"
    and draws: "\<forall>i. unit_draws (draws i)" and sampler: "sampler_returns sampler"
    and keys: "\<forall>k \<in> fst ` set users'. k < uid"
  shows "\<exists>block. for_loop (generate_user odeint draws c sampler days') is (users', uid)
                    = Inr (users' @ block, uid + length is)
                \<and> class_block c uid (length is) block"
  using keys
proof (induction "is" arbitrary: users' uid)
  case Nil
  then show ?case by (simp add: class_block_def)
next
  case (Cons i "is")
  from sampler draws obtain g where g: "sampler (draws uid) = Inr g" "0 \<le> gen_noise_level g"
    unfolding sampler_returns_def by blast
  from oscillation_has_every_hour [OF days _ solver g(2), of 24 "normal_draws (draws uid)"]
  obtain data where data:
    "generate_circadian_oscillation odeint (normal_draws (draws uid)) g days' 24 = Inr data"
    by auto
  have fresh: "uid \<notin> fst ` set users'" using Cons.prems by auto
  let ?u = "user_entry c uid data"
  have step: "generate_user odeint draws c sampler days' i (users', uid)
                = Inr (users' @ [(uid, ?u)], Suc uid)"
    by (simp add: generate_user_def g data update_fresh_key [OF fresh])
  have "\<forall>k \<in> fst ` set (users' @ [(uid, ?u)]). k < Suc uid"
    using Cons.prems by (auto simp: less_Suc_eq)
  from Cons.IH [OF this] obtain block where
    rest: "for_loop (generate_user odeint draws c sampler days') is (users' @ [(uid, ?u)], Suc uid)
             = Inr ((users' @ [(uid, ?u)]) @ block, Suc uid + length is)"
    and block: "class_block c (Suc uid) (length is) block"
    by blast
  have "class_block c uid (length (i # is)) ((uid, ?u) # block)"
    using class_block_Cons [OF block, of ?u] by (simp add: user_entry_def)
  with step rest show ?case
    by (intro exI [of _ "(uid, ?u) # block"]) simp
qed

lemma class_block_keys: "class_block c first n block \<Longrightarrow> \<forall>k \<in> fst ` set block. k < first + n"
proof -
  assume "class_block c first n block"
  then have "set (map fst block) = {first..<first + n}" by (simp add: class_block_def)
  then show ?thesis by auto
qed

lemma class_block_length: "class_block c first n block \<Longrightarrow> length block = n"
proof -
  assume "class_block c first n block"
  then have "length (map fst block) = length [first..<first + n]" by (simp add: class_block_def)
  then show ?thesis by simp
qed

lemma class_block_count:
  assumes "class_block c first n block"
  shows "length (filter (\<lambda>(k, u). ud_chronotype u = c') block) = (if c' = c then n else 0)"
proof -
  from assms have all: "\<forall>p \<in> set block. ud_chronotype (snd p) = c"
    by (simp add: class_block_def list_all_iff)
  show ?thesis
  proof (cases "c' = c")
    case True
    with all have "filter (\<lambda>(k, u). ud_chronotype u = c') block = block"
      by (auto simp: filter_id_conv)
    with True assms show ?thesis by (simp add: class_block_length)
  next
    case False
    with all have "filter (\<lambda>(k, u). ud_chronotype u = c') block = []"
      by (auto simp: filter_empty_conv)
    with False show ?thesis by simp
  qed
qed

lemma population_blocks:
  assumes days: "1 \<le> days'" and solver: "integrator_returns odeint"
    and draws: "\<forall>i. unit_draws (draws i)"
  shows "\<exists>be bl bm.
           generate_population_data odeint draws now n_users days' =
             Inr \<lparr> users = be @ bl @ bm,
                   metadata =
                     \<lparr> total_users = n_users, days_per_user = days',
                       chronotype_distribution =
                         \<lparr>early = py_int (0.25 * real_of_int n_users),
                          late = py_int (0.25 * real_of_int n_users),
                          intermediate = n_users - py_int (0.25 * real_of_int n_users)
                                           - py_int (0.25 * real_of_int n_users)\<rparr>,
                       generation_timestamp = now \<rparr> \<rparr>
           \<and> class_block ''early'' 0 (nat (py_int (0.25 * real_of_int n_users))) be
           \<and> class_block ''late'' (nat (py_int (0.25 * real_of_int n_users)))
                (nat (py_int (0.25 * real_of_int n_users))) bl
           \<and> class_block ''intermediate''
                (nat (py_int (0.25 * real_of_int n_users))
                   + nat (py_int (0.25 * real_of_int n_users)))
                (nat (n_users - py_int (0.25 * real_of_int n_users)
                        - py_int (0.25 * real_of_int n_users))) bm"
proof -
  define q where "q = py_int (0.25 * real_of_int n_users)"
  define r where "r = n_users - q - q"
  from class_loop_appends [OF days solver draws samplers_return(1), of "[]" 0 "''early''"
         "map int [0..<nat q]"]
  obtain be where e: "for_loop (generate_user odeint draws ''early'' generate_early_chronotype days')
                        (map int [0..<nat q]) ([], 0) = Inr (be, nat q)"
    and be: "class_block ''early'' 0 (nat q) be"
    by auto
  from class_loop_appends [OF days solver draws samplers_return(2), of be "nat q" "''late''"
         "map int [0..<nat q]"] class_block_keys [OF be]
  obtain bl where l: "for_loop (generate_user odeint draws ''late'' generate_late_chronotype days')
                        (map int [0..<nat q]) (be, nat q) = Inr (be @ bl, nat q + nat q)"
    and bl: "class_block ''late'' (nat q) (nat q) bl"
    by auto
  have "\<forall>k \<in> fst ` set (be @ bl). k < nat q + nat q"
    using class_block_keys [OF be] class_block_keys [OF bl] by fastforce
  from class_loop_appends [OF days solver draws samplers_return(3) this, of "''intermediate''"
         "map int [0..<nat r]"]
  obtain bm where m: "for_loop
        (generate_user odeint draws ''intermediate'' generate_intermediate_chronotype days')
        (map int [0..<nat r]) (be @ bl, nat q + nat q)
          = Inr ((be @ bl) @ bm, nat q + nat q + nat r)"
    and bm: "class_block ''intermediate'' (nat q + nat q) (nat r) bm"
    by auto
  have "generate_population_data odeint draws now n_users days' =
          Inr \<lparr> users = be @ bl @ bm,
                metadata =
                  \<lparr> total_users = n_users, days_per_user = days',
                    chronotype_distribution = \<lparr>early = q, late = q, intermediate = r\<rparr>,
                    generation_timestamp = now \<rparr> \<rparr>"
    unfolding generate_population_data_def Let_def q_def [symmetric] r_def [symmetric]
    by (simp add: e l m)
  with be bl bm show ?thesis unfolding q_def r_def by blast
qed

lemma population_counts:
  assumes n: "0 \<le> n_users" and days: "1 \<le> days'" and solver: "integrator_returns odeint"
    and draws: "\<forall>i. unit_draws (draws i)"
  shows "\<exists>pop. generate_population_data odeint draws now n_users days' = Inr pop
           \<and> class_count ''early'' pop = \<lfloor>0.25 * real_of_int n_users\<rfloor>
           \<and> class_count ''late'' pop = \<lfloor>0.25 * real_of_int n_users\<rfloor>
           \<and> class_count ''intermediate'' pop =
               n_users - \<lfloor>0.25 * real_of_int n_users\<rfloor> - \<lfloor>0.25 * real_of_int n_users\<rfloor>
           \<and> map fst (users pop) = [0..<nat n_users]
           \<and> chronotype_distribution (metadata pop) =
               \<lparr>early = \<lfloor>0.25 * real_of_int n_users\<rfloor>,
                late = \<lfloor>0.25 * real_of_int n_users\<rfloor>,
                intermediate =
                  n_users - \<lfloor>0.25 * real_of_int n_users\<rfloor> - \<lfloor>0.25 * real_of_int n_users\<rfloor>\<rparr>"
proof -
  define q where "q = \<lfloor>0.25 * real_of_int n_users\<rfloor>"
  have pq: "py_int (0.25 * real_of_int n_users) = q" using n by (simp add: py_int_def q_def)
  have q0: "0 \<le> q" using n by (simp add: q_def)
  have "real_of_int q \<le> 0.25 * real_of_int n_users" unfolding q_def by (rule of_int_floor_le)
  then have "2 * real_of_int q \<le> real_of_int n_users" using n by simp
  then have r0: "0 \<le> n_users - q - q" by linarith
  from population_blocks [OF days solver draws, of now n_users] obtain be bl bm where
    pop: "generate_population_data odeint draws now n_users days' =
            Inr \<lparr> users = be @ bl @ bm,
                  metadata =
                    \<lparr> total_users = n_users, days_per_user = days',
                      chronotype_distribution =
                        \<lparr>early = q, late = q, intermediate = n_users - q - q\<rparr>,
                      generation_timestamp = now \<rparr> \<rparr>"
    and be: "class_block ''early'' 0 (nat q) be"
    and bl: "class_block ''late'' (nat q) (nat q) bl"
    and bm: "class_block ''intermediate'' (nat q + nat q) (nat (n_users - q - q)) bm"
    unfolding pq by blast
  let ?pop = "\<lparr> users = be @ bl @ bm,
                 metadata =
                   \<lparr> total_users = n_users, days_per_user = days',
                     chronotype_distribution =
                       \<lparr>early = q, late = q, intermediate = n_users - q - q\<rparr>,
                     generation_timestamp = now \<rparr> \<rparr>"
  note counts = class_block_count [OF be] class_block_count [OF bl] class_block_count [OF bm]
  have keys: "map fst (be @ bl @ bm) = [0..<nat n_users]"
  proof -
    have "map fst (be @ bl @ bm)
            = [0..<nat q] @ [nat q..<nat q + nat q]
                @ [nat q + nat q..<nat q + nat q + nat (n_users - q - q)]"
      using be bl bm by (simp add: class_block_def)
    also have "\<dots> = [0..<nat q + nat q + nat (n_users - q - q)]"
      using upt_add_eq_append [of 0 "nat q" "nat q"]
        upt_add_eq_append [of 0 "nat q + nat q" "nat (n_users - q - q)"]
      by simp
    also have "nat q + nat q + nat (n_users - q - q) = nat n_users"
      using q0 r0 by linarith
    finally show ?thesis .
  qed
  have ce: "class_count ''early'' ?pop = q"
    using q0 by (simp add: class_count_def counts)
  have cl: "class_count ''late'' ?pop = q"
    using q0 by (simp add: class_count_def counts)
  have cm: "class_count ''intermediate'' ?pop = n_users - q - q"
    using r0 by (simp add: class_count_def counts)
  show ?thesis
    unfolding q_def [symmetric] pop
    using ce cl cm keys by (intro exI [of _ ?pop]) simp
qed

lemma for_loop_error:
  assumes "\<And>x s e. body x s = Inl e \<Longrightarrow> P e"
  shows "for_loop body xs s = Inl e \<Longrightarrow> P e"
  by (induction xs arbitrary: s) (auto split: sum.splits dest: assms)

lemma hour_step_error: "hour_step t a h st = Inl e \<Longrightarrow> e = IndexError"
  by (auto simp: hour_step_def Let_def split: prod.splits if_splits)

lemma np_min_error: "np_min xs = Inl e \<Longrightarrow> e = ValueError"
  by (auto simp: np_min_def np_argmin_def split: sum.splits list.splits)

lemma np_max_error: "np_max xs = Inl e \<Longrightarrow> e = ValueError"
  by (auto simp: np_max_def np_argmax_def split: sum.splits list.splits)

lemma np_linspace_error: "np_linspace a b n = Inl e \<Longrightarrow> e = ValueError"
  by (auto simp: np_linspace_def split: if_splits)

lemma oscillation_error:
  assumes "generate_circadian_oscillation odeint normal self days' hpd = Inl e"
  shows "e \<noteq> GenerationError"
proof
  assume g: "e = GenerationError"
  have loop: "for_loop (hour_step t a) hs st \<noteq> Inl GenerationError" for t a hs st
    using for_loop_error [where P = "\<lambda>e. e = IndexError" and body = "hour_step t a",
            OF hour_step_error] by fastforce
  from assms show False unfolding g generate_circadian_oscillation_def Let_def
    by (auto split: sum.splits option.splits if_splits prod.splits
          dest: np_linspace_error np_min_error np_max_error simp: loop)
qed

lemma sampler_error:
  "generate_early_chronotype d = Inl e \<Longrightarrow> e = ZeroDivisionError"
  "generate_late_chronotype d = Inl e \<Longrightarrow> e = ZeroDivisionError"
  "generate_intermediate_chronotype d = Inl e \<Longrightarrow> e = ZeroDivisionError"
  by (auto simp: generate_early_chronotype_def generate_late_chronotype_def
        generate_intermediate_chronotype_def new_generator_def Let_def split: if_splits)

lemma generate_user_error:
  assumes "\<And>d e. sampler d = Inl e \<Longrightarrow> e = ZeroDivisionError"
    and "generate_user odeint draws c sampler days' i st = Inl e"
  shows "e \<noteq> GenerationError"
  using assms(2)
  by (auto simp: generate_user_def Let_def split: prod.splits sum.splits
        dest: assms(1) oscillation_error)

lemma class_loop_error:
  assumes "\<And>d e. sampler d = Inl e \<Longrightarrow> e = ZeroDivisionError"
  shows "for_loop (generate_user odeint draws c sampler days') xs st \<noteq> Inl GenerationError"
proof
  assume "for_loop (generate_user odeint draws c sampler days') xs st = Inl GenerationError"
  then have "GenerationError \<noteq> GenerationError"
    by (rule for_loop_error [where P = "\<lambda>e. e \<noteq> GenerationError", rotated])
       (rule generate_user_error [OF assms])
  then show False by simp
qed

lemma population_error:
  "generate_population_data odeint draws now n_users days' \<noteq> Inl GenerationError"
  unfolding generate_population_data_def Let_def
  by (auto split: sum.splits prod.splits
        simp: class_loop_error [OF sampler_error(1)] class_loop_error [OF sampler_error(2)]
          class_loop_error [OF sampler_error(3)])

lemma empty_population:
  assumes "n_users < 1"
  shows "generate_population_data odeint draws now n_users days' =
           Inr \<lparr> users = [],
                 metadata =
                   \<lparr> total_users = n_users, days_per_user = days',
                     chronotype_distribution =
                       \<lparr>early = py_int (0.25 * real_of_int n_users),
                        late = py_int (0.25 * real_of_int n_users),
                        intermediate = n_users - py_int (0.25 * real_of_int n_users)
                                         - py_int (0.25 * real_of_int n_users)\<rparr>,
                     generation_timestamp = now \<rparr> \<rparr>"
proof -
  define q where "q = py_int (0.25 * real_of_int n_users)"
  have x: "0.25 * real_of_int n_users \<le> 0" using assms by simp
  have q0: "q \<le> 0"
  proof (cases "0.25 * real_of_int n_users = 0")
    case True
    then show ?thesis by (simp add: q_def py_int_def)
  next
    case False
    with x have "0.25 * real_of_int n_users < 0" by linarith
    then have "q = \<lceil>0.25 * real_of_int n_users\<rceil>" by (simp add: q_def py_int_def)
    with x show ?thesis by (simp add: ceiling_le_zero)
  qed
  have "0.25 * real_of_int n_users \<le> real_of_int q"
  proof (cases "0 \<le> 0.25 * real_of_int n_users")
    case True
    with x have "0.25 * real_of_int n_users = 0" by linarith
    then show ?thesis by (simp add: q_def py_int_def)
  next
    case False
    then have "q = \<lceil>0.25 * real_of_int n_users\<rceil>" by (simp add: q_def py_int_def)
    then show ?thesis by (simp add: le_of_int_ceiling)
  qed
  then have "real_of_int n_users \<le> 4 * real_of_int q" by simp
  then have "n_users \<le> 4 * q" by linarith
  then have r0: "n_users - q - q \<le> 0" using q0 by linarith
  show ?thesis
    unfolding generate_population_data_def Let_def q_def [symmetric]
    using q0 r0 by simp
qed

lemma constant_integrator_returns: "integrator_returns constant_integrator"
  by (simp add: integrator_returns_def constant_integrator_def)

lemma sample_draws_unit: "unit_draws sample_subject_draws"
  by (simp add: unit_draws_def sample_subject_draws_def)

text \<open>
  Claim C10. For every \<open>days \<ge> 1\<close>, \<open>generate_circadian_oscillation\<close> returns an hourly
  signal of length \<open>days * 24\<close> whose hour indices are \<open>0, 1, ..., days * 24 - 1\<close>: every
  hour \<open>[h, h + 1)\<close> holds a point of the grid of \<open>np.linspace\<close> (lemma
  \<open>grid_point_in_hour\<close>), so no hour is dropped. The grid is taken in exact arithmetic,
  the integrator returns one state per grid point, and the noise level is not negative.
\<close>

theorem oscillation_hours_are_gap_free:
  assumes "1 \<le> days'" and "integrator_returns odeint" and "0 \<le> gen_noise_level self"
  shows "\<exists>r. generate_circadian_oscillation odeint normal self days' 24 = Inr r
           \<and> time_hours r = map int [0..<nat days' * 24]
           \<and> length (time_hours r) = nat days' * 24
           \<and> length (activity_level r) = nat days' * 24"
proof -
  have "nat (days' * 24) = nat days' * 24" using assms(1) by (simp add: nat_mult_distrib)
  with oscillation_has_every_hour [OF assms(1) _ assms(2,3), of 24 normal]
  show ?thesis by auto
qed

theorem oscillation_hours_are_gap_free_witness:
  "(1::int) \<le> 2 \<and> integrator_returns constant_integrator
   \<and> (\<exists>r. generate_circadian_oscillation constant_integrator (\<lambda>k. 0)
              \<lparr>gen_mu = 1, gen_tau = 24, gen_omega = 2 * pi / 24, gen_noise_level = 0.1\<rparr>
              2 24 = Inr r
          \<and> time_hours r = map int [0..<48] \<and> length (activity_level r) = 48)"
  using oscillation_hours_are_gap_free
          [of 2 constant_integrator
              "\<lparr>gen_mu = 1, gen_tau = 24, gen_omega = 2 * pi / 24, gen_noise_level = 0.1\<rparr>"
              "\<lambda>k. 0"]
  by (auto simp: constant_integrator_returns)

text \<open>
  Claim C8. For every \<open>n_users \<ge> 1\<close> the generated population holds
  \<open>floor (0.25 * n_users)\<close> early subjects, as many late ones, and
  \<open>n_users\<close> minus these two counts intermediate ones, \<open>n_users\<close> subjects in all, numbered
  \<open>0, ..., n_users - 1\<close>, and the metadata records these counts; \<open>generate(1000, 30)\<close> gives
  250 early, 250 late and 500 intermediate subjects.
\<close>

theorem population_class_counts:
  assumes "1 \<le> n_users" and "1 \<le> days'" and "integrator_returns odeint"
    and "\<forall>i. unit_draws (draws i)"
  shows "(\<exists>pop. generate_population_data odeint draws now n_users days' = Inr pop
            \<and> class_count ''early'' pop = \<lfloor>0.25 * real_of_int n_users\<rfloor>
            \<and> class_count ''late'' pop = \<lfloor>0.25 * real_of_int n_users\<rfloor>
            \<and> class_count ''intermediate'' pop =
                n_users - \<lfloor>0.25 * real_of_int n_users\<rfloor> - \<lfloor>0.25 * real_of_int n_users\<rfloor>
            \<and> class_count ''early'' pop + class_count ''late'' pop
                  + class_count ''intermediate'' pop = n_users
            \<and> int (length (users pop)) = n_users
            \<and> map fst (users pop) = [0..<nat n_users]
            \<and> chronotype_distribution (metadata pop) =
                \<lparr>early = class_count ''early'' pop, late = class_count ''late'' pop,
                 intermediate = class_count ''intermediate'' pop\<rparr>)
       \<and> (\<exists>pop. generate_population_data odeint draws now 1000 30 = Inr pop
            \<and> class_count ''early'' pop = 250 \<and> class_count ''late'' pop = 250
            \<and> class_count ''intermediate'' pop = 500
            \<and> int (length (users pop)) = 1000)"
proof (rule conjI)
  have n0: "0 \<le> n_users" using assms(1) by simp
  from population_counts [OF n0 assms(2-4), of now] obtain pop where
    pop: "generate_population_data odeint draws now n_users days' = Inr pop"
    and counts: "class_count ''early'' pop = \<lfloor>0.25 * real_of_int n_users\<rfloor>"
      "class_count ''late'' pop = \<lfloor>0.25 * real_of_int n_users\<rfloor>"
      "class_count ''intermediate'' pop =
         n_users - \<lfloor>0.25 * real_of_int n_users\<rfloor> - \<lfloor>0.25 * real_of_int n_users\<rfloor>"
    and keys: "map fst (users pop) = [0..<nat n_users]"
    and meta: "chronotype_distribution (metadata pop) =
               \<lparr>early = \<lfloor>0.25 * real_of_int n_users\<rfloor>,
                late = \<lfloor>0.25 * real_of_int n_users\<rfloor>,
                intermediate =
                  n_users - \<lfloor>0.25 * real_of_int n_users\<rfloor> - \<lfloor>0.25 * real_of_int n_users\<rfloor>\<rparr>"
    by blast
  have "length (map fst (users pop)) = nat n_users" unfolding keys by simp
  then have len: "int (length (users pop)) = n_users" using n0 by simp
  show "\<exists>pop. generate_population_data odeint draws now n_users days' = Inr pop
            \<and> class_count ''early'' pop = \<lfloor>0.25 * real_of_int n_users\<rfloor>
            \<and> class_count ''late'' pop = \<lfloor>0.25 * real_of_int n_users\<rfloor>
            \<and> class_count ''intermediate'' pop =
                n_users - \<lfloor>0.25 * real_of_int n_users\<rfloor> - \<lfloor>0.25 * real_of_int n_users\<rfloor>
            \<and> class_count ''early'' pop + class_count ''late'' pop
                  + class_count ''intermediate'' pop = n_users
            \<and> int (length (users pop)) = n_users
            \<and> map fst (users pop) = [0..<nat n_users]
            \<and> chronotype_distribution (metadata pop) =
                \<lparr>early = class_count ''early'' pop, late = class_count ''late'' pop,
                 intermediate = class_count ''intermediate'' pop\<rparr>"
    using pop counts keys meta len by (intro exI [of _ pop]) simp
next
  from population_counts [OF _ _ assms(3,4), of 1000 30 now] obtain pop where
    pop: "generate_population_data odeint draws now 1000 30 = Inr pop"
    and counts: "class_count ''early'' pop = 250" "class_count ''late'' pop = 250"
      "class_count ''intermediate'' pop = 500"
    and keys: "map fst (users pop) = [0..<1000]"
    by auto
  have "length (map fst (users pop)) = 1000" unfolding keys by simp
  then have "int (length (users pop)) = 1000" by simp
  with pop counts show "\<exists>pop. generate_population_data odeint draws now 1000 30 = Inr pop
            \<and> class_count ''early'' pop = 250 \<and> class_count ''late'' pop = 250
            \<and> class_count ''intermediate'' pop = 500
            \<and> int (length (users pop)) = 1000"
    by blast
qed

theorem population_class_counts_witness:
  "(1::int) \<le> 10 \<and> (1::int) \<le> 2 \<and> integrator_returns constant_integrator
   \<and> unit_draws sample_subject_draws
   \<and> (\<exists>pop. generate_population_data constant_integrator (\<lambda>i. sample_subject_draws) ''now''
              10 2 = Inr pop
          \<and> class_count ''early'' pop = 2 \<and> class_count ''late'' pop = 2
          \<and> class_count ''intermediate'' pop = 6 \<and> int (length (users pop)) = 10)"
  using population_class_counts
          [of 10 2 constant_integrator "\<lambda>i. sample_subject_draws" "''now''"]
  by (auto simp: constant_integrator_returns sample_draws_unit)

text \<open>
  Claim C7 says that generation fails with a \<open>GenerationError\<close> exactly when
  \<open>n_users < 1\<close> or \<open>days < 1\<close>. The function validates nothing: for \<open>n_users = 0\<close> the
  three loops are empty and it returns a population without subjects.
\<close>

theorem generation_error_counterexample:
  "(0::int) < 1
   \<and> generate_population_data constant_integrator (\<lambda>i. sample_subject_draws) ''now'' 0 30 =
       Inr \<lparr> users = [],
             metadata =
               \<lparr> total_users = 0, days_per_user = 30,
                 chronotype_distribution = \<lparr>early = 0, late = 0, intermediate = 0\<rparr>,
                 generation_timestamp = ''now'' \<rparr> \<rparr>
   \<and> generate_population_data constant_integrator (\<lambda>i. sample_subject_draws) ''now'' 0 30
       \<noteq> Inl GenerationError"
  by (simp add: generate_population_data_def py_int_def Let_def)

lemma oscillation_fails_without_days:
  assumes "days' < 1" and "one_state_per_point odeint"
  shows "generate_circadian_oscillation odeint normal self days' 24 = Inl ValueError
         \<or> generate_circadian_oscillation odeint normal self days' 24 = Inl LibraryError"
proof (cases "days' < 0")
  case True
  then have "np_linspace 0 (real_of_int (days' * 24)) (days' * 24 * 4) = Inl ValueError"
    by (simp add: np_linspace_def)
  then show ?thesis by (simp add: generate_circadian_oscillation_def Let_def)
next
  case False
  with assms(1) have d: "days' = 0" by simp
  have t: "np_linspace 0 (real_of_int (0 * 24)) (0 * 24 * 4) = Inr []"
    by (simp add: np_linspace_def)
  show ?thesis
  proof (cases "odeint self []")
    case None
    with t show ?thesis unfolding d by (simp add: generate_circadian_oscillation_def Let_def)
  next
    case (Some solution)
    with assms(2) have "solution = []" unfolding one_state_per_point_def by fastforce
    with Some t show ?thesis unfolding d
      by (simp add: generate_circadian_oscillation_def Let_def np_min_def np_argmin_def)
  qed
qed

lemma oscillation_fails_with_negative_days:
  assumes "days' < 0"
  shows "generate_circadian_oscillation odeint normal self days' 24 = Inl ValueError"
proof -
  from assms have "np_linspace 0 (real_of_int (days' * 24)) (days' * 24 * 4) = Inl ValueError"
    by (simp add: np_linspace_def)
  then show ?thesis by (simp add: generate_circadian_oscillation_def Let_def)
qed

lemma generate_user_passes_error:
  assumes "sampler_returns sampler" and "unit_draws (draws uid)"
    and "\<forall>g normal. \<exists>e. generate_circadian_oscillation odeint normal g days' 24 = Inl e \<and> e \<in> E"
  shows "\<exists>e. generate_user odeint draws c sampler days' i (users', uid) = Inl e \<and> e \<in> E"
proof -
  from assms(1,2) obtain g where g: "sampler (draws uid) = Inr g"
    unfolding sampler_returns_def by fastforce
  from assms(3) obtain e where
    "generate_circadian_oscillation odeint (normal_draws (draws uid)) g days' 24 = Inl e" "e \<in> E"
    by blast
  then show ?thesis by (auto simp: generate_user_def g)
qed

lemma class_loop_passes_error:
  assumes "0 < m" and "sampler_returns sampler" and "unit_draws (draws uid)"
    and "\<forall>g normal. \<exists>e. generate_circadian_oscillation odeint normal g days' 24 = Inl e \<and> e \<in> E"
  shows "\<exists>e. for_loop (generate_user odeint draws c sampler days') (map int [0..<m])
               (users', uid) = Inl e \<and> e \<in> E"
proof -
  from assms(1) have "map int [0..<m] = 0 # map int [Suc 0..<m]"
    by (simp add: upt_conv_Cons)
  moreover from generate_user_passes_error [where E = E and draws = draws and uid = uid,
                          OF assms(2) assms(3) assms(4)]
  obtain e where
    "generate_user odeint draws c sampler days' 0 (users', uid) = Inl e" "e \<in> E"
    by blast
  ultimately show ?thesis by simp
qed

lemma population_passes_error:
  assumes n: "1 \<le> n_users" and draws: "\<forall>i. unit_draws (draws i)"
    and osc: "\<forall>g normal. \<exists>e. generate_circadian_oscillation odeint normal g days' 24 = Inl e
                \<and> e \<in> E"
  shows "\<exists>e. generate_population_data odeint draws now n_users days' = Inl e \<and> e \<in> E"
proof -
  define q where "q = py_int (0.25 * real_of_int n_users)"
  have q0: "0 \<le> q" using n by (simp add: q_def py_int_def)
  show ?thesis
  proof (cases "0 < nat q")
    case True
    have "unit_draws (draws 0)" using draws by blast
    from class_loop_passes_error [where E = E and draws = draws and uid = 0,
           OF True samplers_return(1) this osc]
    obtain e where "for_loop (generate_user odeint draws ''early'' generate_early_chronotype days')
                      (map int [0..<nat q]) ([], 0) = Inl e" "e \<in> E"
      by blast
    then show ?thesis
      unfolding generate_population_data_def Let_def q_def [symmetric] by simp
  next
    case False
    with q0 have q: "q = 0" by simp
    have m: "0 < nat (n_users - q - q)" using n q by simp
    have u: "unit_draws (draws 0)" using draws by blast
    from class_loop_passes_error [where E = E and draws = draws and uid = 0,
           OF m samplers_return(3) u osc]
    obtain e where "for_loop
        (generate_user odeint draws ''intermediate'' generate_intermediate_chronotype days')
        (map int [0..<nat (n_users - q - q)]) ([], 0) = Inl e" "e \<in> E"
      by blast
    then show ?thesis
      unfolding generate_population_data_def Let_def q_def [symmetric] by (simp add: q)
  qed
qed

text \<open>
  Claim C7, amended. \<open>generate_population_data\<close> checks neither argument and the code has
  no \<open>GenerationError\<close>. With \<open>n_users < 1\<close> it does not fail, whatever \<open>days\<close> is: it
  returns a population without subjects. With \<open>n_users \<ge> 1\<close> and \<open>days < 1\<close> it fails, on
  its first subject and with an exception of numpy: for \<open>days < 0\<close> the \<open>ValueError\<close> of
  \<open>np.linspace\<close> asked for a negative number of samples; for \<open>days = 0\<close> the grid is
  empty, and either the integrator raises on it or it returns no state and \<open>np.min\<close> of
  the empty array raises \<open>ValueError\<close>. With \<open>n_users \<ge> 1\<close> and \<open>days \<ge> 1\<close> it completes.
  (Subject counts up to \<open>2^53\<close> in absolute value, which \<open>0.25 * n_users\<close> handles exactly;
  uniform variates in \<open>[0, 1)\<close>; for \<open>days = 0\<close> an integrator that returns one state per
  grid point when it returns, for \<open>days \<ge> 1\<close> one that returns.)
\<close>

theorem generation_fails_only_without_days:
  "(n_users < 1 \<and> - (2 ^ 53) \<le> n_users \<longrightarrow>
      (\<exists>meta. generate_population_data odeint draws now n_users days'
                = Inr \<lparr>users = [], metadata = meta\<rparr>))
   \<and> (1 \<le> n_users \<and> n_users \<le> 2 ^ 53 \<and> days' < 1 \<and> one_state_per_point odeint
        \<and> (\<forall>i. unit_draws (draws i)) \<longrightarrow>
        generate_population_data odeint draws now n_users days' = Inl ValueError
        \<or> generate_population_data odeint draws now n_users days' = Inl LibraryError)
   \<and> (1 \<le> n_users \<and> n_users \<le> 2 ^ 53 \<and> days' < 0 \<and> (\<forall>i. unit_draws (draws i)) \<longrightarrow>
        generate_population_data odeint draws now n_users days' = Inl ValueError)
   \<and> (1 \<le> n_users \<and> n_users \<le> 2 ^ 53 \<and> 1 \<le> days' \<and> integrator_returns odeint
        \<and> (\<forall>i. unit_draws (draws i)) \<longrightarrow>
        (\<exists>pop. generate_population_data odeint draws now n_users days' = Inr pop))"
proof (intro conjI impI)
  assume "n_users < 1 \<and> - (2 ^ 53) \<le> n_users"
  then show "\<exists>meta. generate_population_data odeint draws now n_users days'
                      = Inr \<lparr>users = [], metadata = meta\<rparr>"
    by (simp add: empty_population)
next
  assume a: "1 \<le> n_users \<and> n_users \<le> 2 ^ 53 \<and> days' < 1 \<and> one_state_per_point odeint
             \<and> (\<forall>i. unit_draws (draws i))"
  have "\<forall>g normal. \<exists>e. generate_circadian_oscillation odeint normal g days' 24 = Inl e
            \<and> e \<in> {ValueError, LibraryError}"
  proof (intro allI)
    fix g normal
    from oscillation_fails_without_days [of days' odeint normal g] a
    show "\<exists>e. generate_circadian_oscillation odeint normal g days' 24 = Inl e
            \<and> e \<in> {ValueError, LibraryError}"
      by auto
  qed
  from population_passes_error [where E = "{ValueError, LibraryError}",
         OF _ _ this, of n_users draws now] a
  show "generate_population_data odeint draws now n_users days' = Inl ValueError
        \<or> generate_population_data odeint draws now n_users days' = Inl LibraryError"
    by auto
next
  assume a: "1 \<le> n_users \<and> n_users \<le> 2 ^ 53 \<and> days' < 0 \<and> (\<forall>i. unit_draws (draws i))"
  have "\<forall>g normal. \<exists>e. generate_circadian_oscillation odeint normal g days' 24 = Inl e
            \<and> e \<in> {ValueError}"
    using oscillation_fails_with_negative_days [of days' odeint] a by simp
  from population_passes_error [where E = "{ValueError}", OF _ _ this,
         of n_users draws now] a
  show "generate_population_data odeint draws now n_users days' = Inl ValueError"
    by auto
next
  assume a: "1 \<le> n_users \<and> n_users \<le> 2 ^ 53 \<and> 1 \<le> days' \<and> integrator_returns odeint
             \<and> (\<forall>i. unit_draws (draws i))"
  then have "0 \<le> n_users" by simp
  from population_counts [OF this, of days' odeint draws now] a
  show "\<exists>pop. generate_population_data odeint draws now n_users days' = Inr pop"
    by blast
qed

lemma constant_integrator_shape: "one_state_per_point constant_integrator"
  by (simp add: one_state_per_point_def constant_integrator_def)

theorem generation_fails_only_without_days_witness:
  "(-3::int) < 1 \<and> - (2 ^ 53) \<le> (-3::int)
   \<and> (\<exists>meta. generate_population_data constant_integrator (\<lambda>i. sample_subject_draws) ''now''
               (-3) 30 = Inr \<lparr>users = [], metadata = meta\<rparr>)
   \<and> (1::int) \<le> 1 \<and> (1::int) \<le> 2 ^ 53 \<and> (4::int) \<le> 2 ^ 53 \<and> (0::int) < 1
   \<and> one_state_per_point constant_integrator
   \<and> unit_draws sample_subject_draws
   \<and> generate_population_data constant_integrator (\<lambda>i. sample_subject_draws) ''now'' 1 0
       = Inl ValueError
   \<and> (-1::int) < 0
   \<and> generate_population_data constant_integrator (\<lambda>i. sample_subject_draws) ''now'' 1 (-1)
       = Inl ValueError
   \<and> (1::int) \<le> 4 \<and> (1::int) \<le> 1 \<and> integrator_returns constant_integrator
   \<and> (\<exists>pop. generate_population_data constant_integrator (\<lambda>i. sample_subject_draws) ''now''
              4 1 = Inr pop)"
proof -
  note inst = generation_fails_only_without_days
               [of _ constant_integrator "\<lambda>i. sample_subject_draws" "''now''"]
  have a: "\<exists>meta. generate_population_data constant_integrator (\<lambda>i. sample_subject_draws) ''now''
               (-3) 30 = Inr \<lparr>users = [], metadata = meta\<rparr>"
    using inst [of "-3" 30] by simp
  have b: "generate_population_data constant_integrator (\<lambda>i. sample_subject_draws) ''now'' 1 (-1)
       = Inl ValueError"
    using inst [of 1 "-1"] by (simp add: sample_draws_unit)
  have c: "\<exists>pop. generate_population_data constant_integrator (\<lambda>i. sample_subject_draws) ''now''
              4 1 = Inr pop"
    using inst [of 4 1] by (simp add: sample_draws_unit constant_integrator_returns)
  have "generate_population_data constant_integrator (\<lambda>i. sample_subject_draws) ''now'' 1 0
          = Inl ValueError
        \<or> generate_population_data constant_integrator (\<lambda>i. sample_subject_draws) ''now'' 1 0
          = Inl LibraryError"
    using inst [of 1 0] by (simp add: sample_draws_unit constant_integrator_shape)
  moreover have "generate_population_data constant_integrator (\<lambda>i. sample_subject_draws) ''now''
                   1 0 \<noteq> Inl LibraryError"
    by (simp add: generate_population_data_def py_int_def Let_def generate_user_def
          generate_intermediate_chronotype_def new_generator_def np_random_uniform_def
          sample_subject_draws_def generate_circadian_oscillation_def np_linspace_def
          constant_integrator_def np_min_def np_argmin_def upt_conv_Cons)
  ultimately have d: "generate_population_data constant_integrator (\<lambda>i. sample_subject_draws)
                        ''now'' 1 0 = Inl ValueError"
    by blast
  from a b c d show ?thesis
    by (simp add: sample_draws_unit constant_integrator_returns constant_integrator_shape)
qed

end
